theory Spec2Isabelle
  imports Complex_Main
begin

section \<open>JavaScript values\<close>

text \<open>
  The store of \<^verbatim>\<open>server/db.ts\<close> holds untyped records (\<^verbatim>\<open>Record<string, any[]>\<close>), and its
  condition parser reads them by dynamic property name. Records are therefore association
  lists from property names to values; a missing property reads as \<^verbatim>\<open>undefined\<close>.
  Numbers are rationals (request bodies are JSON, so there is no NaN and no infinity);
  strings are byte strings. Nested objects and arrays are held by value: the code never
  mutates a nested value, only the top-level records of a table.
\<close>

datatype jsval =
    JUndefined
  | JNull
  | JBool bool
  | JNum rat
  | JStr string
  | JArr "jsval list"
  | JObj "(string \<times> jsval) list"

type_synonym row = "(string \<times> jsval) list"

definition getProp :: "row \<Rightarrow> string \<Rightarrow> jsval" where
  \<comment> \<open>\<^verbatim>\<open>record[key]\<close>\<close>
  "getProp r k = (case map_of r k of None \<Rightarrow> JUndefined | Some v \<Rightarrow> v)"

fun setProp :: "row \<Rightarrow> string \<Rightarrow> jsval \<Rightarrow> row" where
  \<comment> \<open>\<^verbatim>\<open>record[key] = v\<close>: an existing property keeps its place, a new one goes last\<close>
  "setProp [] k v = [(k, v)]"
| "setProp ((k', v') # r) k v = (if k' = k then (k, v) # r else (k', v') # setProp r k v)"

definition assign :: "row \<Rightarrow> row \<Rightarrow> row" where
  \<comment> \<open>\<^verbatim>\<open>Object.assign(target, source)\<close> and the spread \<^verbatim>\<open>{ ...target, ...source }\<close>\<close>
  "assign target source = fold (\<lambda>(k, v) r. setProp r k v) source target"

definition truthy :: "jsval \<Rightarrow> bool" where
  "truthy v = (v \<noteq> JUndefined \<and> v \<noteq> JNull \<and> v \<noteq> JBool False \<and> v \<noteq> JNum 0 \<and> v \<noteq> JStr [])"

fun strictEq :: "jsval \<Rightarrow> jsval \<Rightarrow> bool" where
  \<comment> \<open>\<^verbatim>\<open>a === b\<close>; two objects are equal only when they are the same object, and a value
      read from a copied record is never the object it is compared with\<close>
  "strictEq (JArr xs) b = False"
| "strictEq (JObj kvs) b = False"
| "strictEq a b = (a = b)"

fun jsonCopy :: "jsval \<Rightarrow> jsval" where
  \<comment> \<open>\<^verbatim>\<open>JSON.parse(JSON.stringify(v))\<close>: an undefined property is dropped, an undefined
      array element becomes null\<close>
  "jsonCopy (JArr xs) = JArr (map (\<lambda>v. if v = JUndefined then JNull else jsonCopy v) xs)"
| "jsonCopy (JObj kvs) =
     JObj (map (\<lambda>kv. (fst kv, jsonCopy (snd kv))) (filter (\<lambda>kv. snd kv \<noteq> JUndefined) kvs))"
| "jsonCopy v = v"

definition copyRow :: "row \<Rightarrow> row" where
  "copyRow r = map (\<lambda>kv. (fst kv, jsonCopy (snd kv))) (filter (\<lambda>kv. snd kv \<noteq> JUndefined) r)"

section \<open>String methods used by the condition parser\<close>

definition lowerChar :: "char \<Rightarrow> char" where
  "lowerChar c =
     (case map_of (zip ''ABCDEFGHIJKLMNOPQRSTUVWXYZ'' ''abcdefghijklmnopqrstuvwxyz'') c of
        Some l \<Rightarrow> l
      | None \<Rightarrow> c)"

definition toLowerCase :: "string \<Rightarrow> string" where
  \<comment> \<open>on the letters A to Z; the column names and the SQL text the parser lowers are ASCII\<close>
  "toLowerCase s = map lowerChar s"

fun startsWith :: "string \<Rightarrow> string \<Rightarrow> bool" where
  "startsWith s [] = True"
| "startsWith [] (p # ps) = False"
| "startsWith (c # cs) (p # ps) = (c = p \<and> startsWith cs ps)"

fun includesStr :: "string \<Rightarrow> string \<Rightarrow> bool" where
  \<comment> \<open>\<^verbatim>\<open>s.includes(sub)\<close>\<close>
  "includesStr [] sub = (sub = [])"
| "includesStr (c # cs) sub = (startsWith (c # cs) sub \<or> includesStr cs sub)"

function splitAcc :: "string \<Rightarrow> string \<Rightarrow> string \<Rightarrow> string list" where
  "splitAcc sep acc [] = [rev acc]"
| "splitAcc sep acc (c # cs) =
     (if sep \<noteq> [] \<and> startsWith (c # cs) sep
      then rev acc # splitAcc sep [] (drop (length sep) (c # cs))
      else splitAcc sep (c # acc) cs)"
  by pat_completeness auto
termination
  by (relation "measure (\<lambda>(sep, acc, s). length s)") (auto simp: Suc_le_eq)

definition split :: "string \<Rightarrow> string \<Rightarrow> string list" where
  \<comment> \<open>\<^verbatim>\<open>s.split(sep)\<close> for a separator that is not empty\<close>
  "split s sep = splitAcc sep [] s"

definition isSpace :: "char \<Rightarrow> bool" where
  "isSpace c = (c \<in> set [CHR 0x20, CHR 0x09, CHR 0x0A, CHR 0x0B, CHR 0x0C, CHR 0x0D, CHR 0xA0])"

definition trim :: "string \<Rightarrow> string" where
  "trim s = rev (dropWhile isSpace (rev (dropWhile isSpace s)))"

definition stripQuotes :: "string \<Rightarrow> string" where
  \<comment> \<open>\<^verbatim>\<open>s.replace(/["\']/g, '')\<close>\<close>
  "stripQuotes s = filter (\<lambda>c. c \<noteq> CHR 0x22 \<and> c \<noteq> CHR 0x27) s"

definition popDot :: "string \<Rightarrow> string" where
  \<comment> \<open>\<^verbatim>\<open>s.split('.').pop()\<close>\<close>
  "popDot s = last (split s ''.'')"

text \<open>
  The pattern \<^verbatim>\<open>/^"?([^"]+)"?\s+in\s*\(/i\<close> of the IN branch, on a text that is already
  lower case: an optional quote, the longest run without a quote after which the rest
  matches (the group), an optional quote, white space, \<^verbatim>\<open>in\<close>, optional white space and
  an opening parenthesis.
\<close>

definition inTail :: "string \<Rightarrow> bool" where
  "inTail r =
     (let r1 = (if startsWith r [CHR 0x22] then tl r else r);
          r2 = dropWhile isSpace r1;
          r3 = dropWhile isSpace (drop 2 r2)
      in r1 \<noteq> [] \<and> isSpace (hd r1) \<and> startsWith r2 ''in'' \<and> startsWith r3 ''('')"

fun longestGroup :: "string \<Rightarrow> nat \<Rightarrow> string option" where
  "longestGroup s 0 = None"
| "longestGroup s (Suc n) =
     (if inTail (drop (Suc n) s) then Some (take (Suc n) s) else longestGroup s n)"

definition matchIn :: "string \<Rightarrow> string option" where
  "matchIn s =
     (let s1 = (if startsWith s [CHR 0x22] then tl s else s)
      in longestGroup s1 (length (takeWhile (\<lambda>c. c \<noteq> CHR 0x22) s1)))"

lemma splitAcc_len: "p \<in> set (splitAcc sep acc s) \<Longrightarrow> length p \<le> length acc + length s"
  by (induction sep acc s rule: splitAcc.induct) (auto split: if_splits)

lemma splitAcc_shorter:
  "sep \<noteq> [] \<Longrightarrow> includesStr s sep \<Longrightarrow> p \<in> set (splitAcc sep acc s) \<Longrightarrow>
   length p < length acc + length s"
proof (induction sep acc s rule: splitAcc.induct)
  case (1 sep acc)
  then show ?case by simp
next
  case (2 sep acc c cs)
  show ?case
  proof (cases "startsWith (c # cs) sep")
    case True
    with 2 have "p = rev acc \<or> p \<in> set (splitAcc sep [] (drop (length sep) (c # cs)))"
      by auto
    then show ?thesis
    proof
      assume "p = rev acc" then show ?thesis by simp
    next
      assume "p \<in> set (splitAcc sep [] (drop (length sep) (c # cs)))"
      from splitAcc_len[OF this] 2(3) show ?thesis by (cases sep) auto
    qed
  next
    case False
    with 2 show ?thesis by auto
  qed
qed

lemma split_shorter:
  "includesStr (toLowerCase s) '' and '' \<Longrightarrow> p \<in> set (split (toLowerCase s) '' and '') \<Longrightarrow>
   length p < length s"
  using splitAcc_shorter[of "'' and ''" "toLowerCase s" p "[]"]
  by (simp add: split_def toLowerCase_def)

section \<open>The condition parser of the mock store\<close>

text \<open>
  \<^verbatim>\<open>parseCondition(condition, record)\<close> of \<^verbatim>\<open>server/db.ts\<close>. A condition is any value; what
  the parser reads of an object are its properties \<^verbatim>\<open>column\<close>, \<^verbatim>\<open>value\<close>, \<^verbatim>\<open>sql\<close>,
  \<^verbatim>\<open>params\<close>, \<^verbatim>\<open>type\<close> and \<^verbatim>\<open>conditions\<close>; an absent property is \<open>None\<close> (for
  \<^verbatim>\<open>value\<close>: \<open>JUndefined\<close>). The property \<^verbatim>\<open>queryChunks\<close> is carried along because the
  conditions of the route handlers have it; the parser never reads it.

  The parser returns \<open>None\<close> where the source throws: the LIKE branch calls
  \<^verbatim>\<open>toLowerCase\<close> and \<^verbatim>\<open>replace\<close> on values that need not be strings.
\<close>

datatype sqlres = Returned bool | Thrown | NoMatch

fun everyRes :: "bool option list \<Rightarrow> bool option" where
  \<comment> \<open>\<^verbatim>\<open>Array.prototype.every\<close> over the callback's outcomes, left to right\<close>
  "everyRes [] = Some True"
| "everyRes (None # rs) = None"
| "everyRes (Some False # rs) = Some False"
| "everyRes (Some True # rs) = everyRes rs"

fun someRes :: "bool option list \<Rightarrow> bool option" where
  \<comment> \<open>\<^verbatim>\<open>Array.prototype.some\<close>\<close>
  "someRes [] = Some False"
| "someRes (None # rs) = None"
| "someRes (Some True # rs) = Some True"
| "someRes (Some False # rs) = someRes rs"

text \<open>
  The branch \<^verbatim>\<open>if (condition.sql) { ... }\<close>. Its AND case calls the parser again on
  \<^verbatim>\<open>{ sql: part, params }\<close>: such an object has no column and no type, so an empty part,
  or a part no case matches, gives true. The equality case is tested before the AND case.
\<close>

function parseSql :: "string \<Rightarrow> jsval list \<Rightarrow> row \<Rightarrow> sqlres" where
  "parseSql sqlText params record =
     (let sql = toLowerCase sqlText in
      if includesStr sql ''= $1'' \<and> 1 \<le> length params then
        Returned (strictEq
          (getProp record (popDot (stripQuotes (trim (hd (split sql ''= $1'')))))) (hd params))
      else if includesStr sql '' and '' then
        (case everyRes (map (\<lambda>part.
                 if part = [] then Some True
                 else (case parseSql part params record of
                         Returned b \<Rightarrow> Some b
                       | Thrown \<Rightarrow> None
                       | NoMatch \<Rightarrow> Some True))
               (split sql '' and '')) of
           Some b \<Rightarrow> Returned b
         | None \<Rightarrow> Thrown)
      else if includesStr sql '' in ('' \<and> includesStr sql '')'' \<and> matchIn sql \<noteq> None then
        Returned (\<exists>p \<in> set params. strictEq (getProp record (popDot (the (matchIn sql)))) p)
      else if includesStr sql '' like '' \<and> length (split sql '' like '') = 2 then
        (let parts = split sql '' like '';
             fieldName = popDot (stripQuotes (trim (parts ! 0)));
             pattern = (if params \<noteq> [] \<and> truthy (hd params) then hd params
                        else JStr (filter (\<lambda>c. c \<noteq> CHR 0x27) (parts ! 1)));
             v = (if truthy (getProp record fieldName) then getProp record fieldName else JStr [])
         in case (v, pattern) of
              (JStr vs, JStr ps) \<Rightarrow>
                Returned (includesStr (toLowerCase vs)
                            (toLowerCase (filter (\<lambda>c. c \<noteq> CHR ''%'') ps)))
            | _ \<Rightarrow> Thrown)
      else NoMatch)"
  by pat_completeness auto
termination
  by (relation "measure (\<lambda>(s, ps, r). length s)") (auto simp: split_shorter)

declare parseSql.simps [simp del]

datatype column = Column (colTable: string) (colName: string)

datatype chunk =
    StringChunk string
  | ColumnChunk column
  | ParamChunk jsval
  | ArrayChunk "chunk list"
  | SQLChunk "chunk list"

datatype cond =
    CFalsy
  | CTruthy
  | CFunction "row \<Rightarrow> bool option"
  | CObject (column: "string option") (cvalue: jsval) (sql: "string option")
      (params: "jsval list option") (ctype: "string option")
      (conditions: "cond list option") (queryChunks: "chunk list option")

text \<open>
  \<open>CFalsy\<close> is undefined, null, false, 0 or the empty string; \<open>CTruthy\<close> any other
  primitive; \<open>CFunction f\<close> a function, with \<open>f r = None\<close> where it throws.
\<close>

fun parseCondition :: "cond \<Rightarrow> row \<Rightarrow> bool option" where
  "parseCondition CFalsy record = Some True"
| "parseCondition CTruthy record = Some True"
| "parseCondition (CFunction f) record = (case f record of Some b \<Rightarrow> Some b | None \<Rightarrow> Some True)"
| "parseCondition (CObject col v sq ps ty conds chunks) record =
     (if col \<noteq> None \<and> col \<noteq> Some [] \<and> v \<noteq> JUndefined then
        Some (strictEq (getProp record (the col)) v)
      else
        (case (if sq \<noteq> None \<and> sq \<noteq> Some []
               then parseSql (the sq) (case ps of Some p \<Rightarrow> p | None \<Rightarrow> []) record
               else NoMatch) of
           Returned b \<Rightarrow> Some b
         | Thrown \<Rightarrow> None
         | NoMatch \<Rightarrow>
             (if ty = Some ''and'' then
                (case conds of
                   Some cs \<Rightarrow> everyRes (map (\<lambda>c. parseCondition c record) cs)
                 | None \<Rightarrow> Some True)
              else if ty = Some ''or'' then
                (case conds of
                   Some cs \<Rightarrow> someRes (map (\<lambda>c. parseCondition c record) cs)
                 | None \<Rightarrow> Some True)
              else Some True)))"

section \<open>The mock store\<close>

text \<open>
  \<^verbatim>\<open>mockData\<close> of \<^verbatim>\<open>server/db.ts\<close>: one array of records per table name. A table
  reference of the schema is mapped to its name by \<^verbatim>\<open>getTableName\<close>; any other object is
  \<^verbatim>\<open>'unknown'\<close>, a name under which \<^verbatim>\<open>mockData\<close> holds nothing.
\<close>

record mockData =
  users :: "row list"
  courses :: "row list"
  enrollments :: "row list"
  assignments :: "row list"
  submissions :: "row list"
  grades :: "row list"
  discussions :: "row list"
  materials :: "row list"
  notifications :: "row list"

datatype table =
    schema_users | schema_courses | schema_enrollments | schema_assignments
  | schema_submissions | schema_grades | schema_discussions | schema_materials
  | schema_notifications | schema_none

fun getTableName :: "table \<Rightarrow> string" where
  "getTableName schema_users = ''users''"
| "getTableName schema_courses = ''courses''"
| "getTableName schema_enrollments = ''enrollments''"
| "getTableName schema_assignments = ''assignments''"
| "getTableName schema_submissions = ''submissions''"
| "getTableName schema_grades = ''grades''"
| "getTableName schema_discussions = ''discussions''"
| "getTableName schema_materials = ''materials''"
| "getTableName schema_notifications = ''notifications''"
| "getTableName schema_none = ''unknown''"

definition tableRows :: "mockData \<Rightarrow> string \<Rightarrow> row list option" where
  \<comment> \<open>\<^verbatim>\<open>mockData[tableName]\<close>\<close>
  "tableRows md name =
     (if name = ''users'' then Some (users md)
      else if name = ''courses'' then Some (courses md)
      else if name = ''enrollments'' then Some (enrollments md)
      else if name = ''assignments'' then Some (assignments md)
      else if name = ''submissions'' then Some (submissions md)
      else if name = ''grades'' then Some (grades md)
      else if name = ''discussions'' then Some (discussions md)
      else if name = ''materials'' then Some (materials md)
      else if name = ''notifications'' then Some (notifications md)
      else None)"

definition setTableRows :: "mockData \<Rightarrow> string \<Rightarrow> row list \<Rightarrow> mockData" where
  "setTableRows md name rs =
     (if name = ''users'' then md\<lparr>users := rs\<rparr>
      else if name = ''courses'' then md\<lparr>courses := rs\<rparr>
      else if name = ''enrollments'' then md\<lparr>enrollments := rs\<rparr>
      else if name = ''assignments'' then md\<lparr>assignments := rs\<rparr>
      else if name = ''submissions'' then md\<lparr>submissions := rs\<rparr>
      else if name = ''grades'' then md\<lparr>grades := rs\<rparr>
      else if name = ''discussions'' then md\<lparr>discussions := rs\<rparr>
      else if name = ''materials'' then md\<lparr>materials := rs\<rparr>
      else if name = ''notifications'' then md\<lparr>notifications := rs\<rparr>
      else md)"

section \<open>Select queries: the class MockQuery\<close>

datatype direction = Asc | Desc

text \<open>
  A path is what \<^verbatim>\<open>getNestedValue\<close> receives: a falsy value, a string, or an object, of
  which only the property \<^verbatim>\<open>name\<close> is read. A selected field is either such a path or,
  when the value is an object, the list of that object's own properties.
\<close>

datatype path = PUndefined | PString string | PObject "string option"

datatype selection = Direct path | Nested "(string \<times> path) list"

record mockQuery =
  tableName :: string
  data :: "row list"
  selectedFields :: "(string \<times> selection) list option"
  joins :: "(string \<times> cond) list"
  whereConditions :: "cond list"
  limitCount :: "int option"
  orderByFields :: "(path \<times> direction) list"

definition fromTable :: "mockData \<Rightarrow> (string \<times> selection) list option \<Rightarrow> table \<Rightarrow> mockQuery" where
  \<comment> \<open>\<^verbatim>\<open>db.select(fields).from(table)\<close>, the constructor: the table is copied\<close>
  "fromTable md fieldSpec t =
     \<lparr>tableName = getTableName t,
      data = map copyRow (case tableRows md (getTableName t) of Some rs \<Rightarrow> rs | None \<Rightarrow> []),
      selectedFields = fieldSpec,
      joins = [],
      whereConditions = [],
      limitCount = None,
      orderByFields = []\<rparr>"

fun filterRows :: "cond \<Rightarrow> row list \<Rightarrow> row list option" where
  \<comment> \<open>\<^verbatim>\<open>data.filter(record => parseCondition(condition, record))\<close>; \<open>None\<close> when it throws\<close>
  "filterRows c [] = Some []"
| "filterRows c (r # rs) =
     (case parseCondition c r of
        None \<Rightarrow> None
      | Some b \<Rightarrow>
          (case filterRows c rs of
             None \<Rightarrow> None
           | Some rs' \<Rightarrow> Some (if b then r # rs' else rs')))"

definition whereQ :: "cond \<Rightarrow> mockQuery \<Rightarrow> mockQuery option" where
  "whereQ c q =
     (case c of
        CFalsy \<Rightarrow> Some q
      | _ \<Rightarrow>
          (case filterRows c (data q) of
             None \<Rightarrow> None
           | Some rs \<Rightarrow> Some (q\<lparr>whereConditions := whereConditions q @ [c], data := rs\<rparr>)))"

definition leftJoinQ :: "table \<Rightarrow> cond \<Rightarrow> mockQuery \<Rightarrow> mockQuery" where
  "leftJoinQ joinTable joinCondition q = q\<lparr>joins := joins q @ [(getTableName joinTable, joinCondition)]\<rparr>"

definition orderByQ :: "path \<Rightarrow> direction \<Rightarrow> mockQuery \<Rightarrow> mockQuery" where
  \<comment> \<open>the field kept is \<^verbatim>\<open>field?.name || field\<close>\<close>
  "orderByQ field dir q =
     q\<lparr>orderByFields := orderByFields q @
        [(case field of
            PObject (Some n) \<Rightarrow> if n \<noteq> [] then PString n else field
          | _ \<Rightarrow> field, dir)]\<rparr>"

definition limitQ :: "int \<Rightarrow> mockQuery \<Rightarrow> mockQuery" where
  "limitQ n q = q\<lparr>limitCount := Some n\<rparr>"

definition getNestedValue :: "row \<Rightarrow> path \<Rightarrow> jsval" where
  "getNestedValue obj p =
     (case p of
        PUndefined \<Rightarrow> JObj obj
      | PString s \<Rightarrow> if s = [] then JObj obj else getProp obj s
      | PObject None \<Rightarrow> JObj obj
      | PObject (Some n) \<Rightarrow> if n = [] then JObj obj else getProp obj n)"

definition findById :: "row list \<Rightarrow> jsval \<Rightarrow> row option" where
  \<comment> \<open>\<^verbatim>\<open>rightData.find(r => r.id === key)\<close>\<close>
  "findById rightData key = find (\<lambda>r. strictEq (getProp r ''id'') key) rightData"

definition joinRecord :: "row list \<Rightarrow> string \<Rightarrow> row \<Rightarrow> row" where
  \<comment> \<open>the body of the \<^verbatim>\<open>map\<close> in \<^verbatim>\<open>performJoin\<close>\<close>
  "joinRecord rightData rightTableName leftRecord =
     (if rightTableName = ''users'' then
        (if truthy (getProp leftRecord ''teacherId'') then
           (case findById rightData (getProp leftRecord ''teacherId'') of
              Some rr \<Rightarrow> setProp leftRecord ''teacher'' (JObj [(''name'', getProp rr ''name'')])
            | None \<Rightarrow> leftRecord)
         else if truthy (getProp leftRecord ''studentId'') then
           (case findById rightData (getProp leftRecord ''studentId'') of
              Some rr \<Rightarrow> setProp leftRecord ''student''
                 (JObj [(''name'', getProp rr ''name''), (''email'', getProp rr ''email'')])
            | None \<Rightarrow> leftRecord)
         else if truthy (getProp leftRecord ''userId'') then
           (case findById rightData (getProp leftRecord ''userId'') of
              Some rr \<Rightarrow> setProp leftRecord ''user'' (JObj [(''name'', getProp rr ''name'')])
            | None \<Rightarrow> leftRecord)
         else leftRecord)
      else if rightTableName = ''courses'' then
        (if truthy (getProp leftRecord ''courseId'') then
           (case findById rightData (getProp leftRecord ''courseId'') of
              Some rr \<Rightarrow> setProp leftRecord ''course'' (JObj rr)
            | None \<Rightarrow> leftRecord)
         else leftRecord)
      else if rightTableName = ''assignments'' then
        (if truthy (getProp leftRecord ''assignmentId'') then
           (case findById rightData (getProp leftRecord ''assignmentId'') of
              Some rr \<Rightarrow> setProp leftRecord ''assignment'' (JObj rr)
            | None \<Rightarrow> leftRecord)
         else leftRecord)
      else if rightTableName = ''submissions'' then
        (if truthy (getProp leftRecord ''submissionId'') then
           (case findById rightData (getProp leftRecord ''submissionId'') of
              Some rr \<Rightarrow> setProp leftRecord ''submission'' (JObj rr)
            | None \<Rightarrow> leftRecord)
         else leftRecord)
      else leftRecord)"

definition performJoin :: "mockData \<Rightarrow> row list \<Rightarrow> string \<Rightarrow> row list" where
  "performJoin md leftData rightTableName =
     map (joinRecord (case tableRows md rightTableName of Some rs \<Rightarrow> rs | None \<Rightarrow> []) rightTableName)
       leftData"

text \<open>
  The comparison \<^verbatim>\<open>aVal < bVal\<close> of the sort callback. A plain object converts to the
  string \<^verbatim>\<open>[object Object]\<close>; two strings compare by their characters, numbers, booleans
  and null as numbers, and undefined with nothing. What is left (a string against a
  number, an array) needs the language's conversions between strings and numbers, which
  are taken as the parameter \<open>coerce\<close>.
\<close>

fun strLess :: "string \<Rightarrow> string \<Rightarrow> bool" where
  "strLess [] [] = False"
| "strLess [] (y # ys) = True"
| "strLess (x # xs) [] = False"
| "strLess (x # xs) (y # ys) =
     ((of_char x :: nat) < of_char y \<or> (x = y \<and> strLess xs ys))"

fun toPrimitive :: "jsval \<Rightarrow> jsval" where
  "toPrimitive (JObj kvs) = JStr ''[object Object]''"
| "toPrimitive v = v"

fun numeric :: "jsval \<Rightarrow> rat option" where
  "numeric (JNum n) = Some n"
| "numeric (JBool b) = Some (if b then 1 else 0)"
| "numeric JNull = Some 0"
| "numeric v = None"

definition jsLess :: "(jsval \<Rightarrow> jsval \<Rightarrow> bool) \<Rightarrow> jsval \<Rightarrow> jsval \<Rightarrow> bool" where
  "jsLess coerce a b =
     (case (toPrimitive a, toPrimitive b) of
        (JStr x, JStr y) \<Rightarrow> strLess x y
      | (JUndefined, y) \<Rightarrow> False
      | (x, JUndefined) \<Rightarrow> False
      | (x, y) \<Rightarrow>
          (case (numeric x, numeric y) of
             (Some m, Some n) \<Rightarrow> m < n
           | _ \<Rightarrow> coerce x y))"

fun compareRows :: "(jsval \<Rightarrow> jsval \<Rightarrow> bool) \<Rightarrow> (path \<times> direction) list \<Rightarrow> row \<Rightarrow> row \<Rightarrow> int" where
  "compareRows coerce [] a b = 0"
| "compareRows coerce ((field, dir) # rest) a b =
     (let aVal = getNestedValue a field; bVal = getNestedValue b field
      in if jsLess coerce aVal bVal then (if dir = Asc then - 1 else 1)
         else if jsLess coerce bVal aVal then (if dir = Asc then 1 else - 1)
         else compareRows coerce rest a b)"

text \<open>
  \<^verbatim>\<open>Array.prototype.sort\<close> is stable; it is modelled as the stable insertion sort, which
  is what it computes for a consistent callback. For a callback that is not a consistent
  order (a missing key compares equal to every value) the engine may return another
  permutation; the properties below are about which array is written and about listings
  whose callback is constantly 0, not about that order.
\<close>

fun insertBy :: "('a \<Rightarrow> 'a \<Rightarrow> int) \<Rightarrow> 'a \<Rightarrow> 'a list \<Rightarrow> 'a list" where
  "insertBy cmp x [] = [x]"
| "insertBy cmp x (y # ys) = (if cmp x y \<le> 0 then x # y # ys else y # insertBy cmp x ys)"

fun sortBy :: "('a \<Rightarrow> 'a \<Rightarrow> int) \<Rightarrow> 'a list \<Rightarrow> 'a list" where
  "sortBy cmp [] = []"
| "sortBy cmp (x # xs) = insertBy cmp x (sortBy cmp xs)"

definition slice0 :: "int \<Rightarrow> 'a list \<Rightarrow> 'a list" where
  \<comment> \<open>\<^verbatim>\<open>xs.slice(0, n)\<close>\<close>
  "slice0 n xs = (if 0 \<le> n then take (nat n) xs else take (nat (int (length xs) + n)) xs)"

definition selectRecord :: "(string \<times> selection) list \<Rightarrow> row \<Rightarrow> row" where
  "selectRecord fieldSpec record =
     fold (\<lambda>(key, sel) selected.
            setProp selected key
              (case sel of
                 Nested props \<Rightarrow>
                   JObj (fold (\<lambda>(nestedKey, nestedValue) obj.
                                 setProp obj nestedKey (getNestedValue record nestedValue))
                           props [])
               | Direct p \<Rightarrow> getNestedValue record p))
       fieldSpec []"

definition thenQ :: "(jsval \<Rightarrow> jsval \<Rightarrow> bool) \<Rightarrow> mockData \<Rightarrow> mockQuery \<Rightarrow> row list" where
  \<comment> \<open>\<^verbatim>\<open>MockQuery.then\<close>: what the awaited query resolves to\<close>
  "thenQ coerce md q =
     (let joined = fold (\<lambda>(name, c) result. performJoin md result name) (joins q) (data q);
          ordered = (if orderByFields q \<noteq> [] then sortBy (compareRows coerce (orderByFields q)) joined
                     else joined);
          limited = (case limitCount q of
                       Some n \<Rightarrow> if n \<noteq> 0 then slice0 n ordered else ordered
                     | None \<Rightarrow> ordered)
      in case selectedFields q of
           Some fieldSpec \<Rightarrow> map (selectRecord fieldSpec) limited
         | None \<Rightarrow> limited)"

section \<open>Insert and update\<close>

definition newRecord :: "string \<Rightarrow> row \<Rightarrow> string \<Rightarrow> string \<Rightarrow> row" where
  \<comment> \<open>the object literal of \<^verbatim>\<open>db.insert\<close>; \<open>gid\<close> is what \<^verbatim>\<open>generateId()\<close> returned and
      \<open>now\<close> the time stamp\<close>
  "newRecord name values gid now =
     (let r0 = setProp values ''id'' (JStr gid);
          r1 = setProp r0 ''createdAt''
                 (if truthy (getProp values ''createdAt'') then getProp values ''createdAt''
                  else JStr now);
          r2 = (if name = ''enrollments'' then setProp r1 ''enrolledAt'' (JStr now) else r1);
          r3 = (if name = ''submissions'' then setProp r2 ''submittedAt'' (JStr now) else r2);
          r4 = (if name = ''grades'' then setProp r3 ''gradedAt'' (JStr now) else r3)
      in if name = ''materials'' then setProp r4 ''uploadedAt'' (JStr now) else r4)"

fun updateRows :: "cond \<Rightarrow> row \<Rightarrow> row list \<Rightarrow> row list \<times> bool" where
  \<comment> \<open>the \<^verbatim>\<open>forEach\<close> of \<^verbatim>\<open>db.update\<close>; the flag is false when the parser threw, and the
      records before that one stay updated\<close>
  "updateRows c updateData [] = ([], True)"
| "updateRows c updateData (r # rs) =
     (case parseCondition c r of
        None \<Rightarrow> (r # rs, False)
      | Some b \<Rightarrow>
          (let (rs', ok) = updateRows c updateData rs
           in ((if b then assign r updateData else r) # rs', ok)))"

section \<open>The conditions the handlers build\<close>

text \<open>
  \<^verbatim>\<open>server/routes.ts\<close> and \<^verbatim>\<open>server/storage.ts\<close> build every condition with the operators
  \<^verbatim>\<open>eq\<close>, \<^verbatim>\<open>and\<close> and \<^verbatim>\<open>desc\<close> imported from the package drizzle-orm, applied to
  column objects of \<^verbatim>\<open>shared/schema.ts\<close>. Each operator returns an object of the package's
  class \<^verbatim>\<open>SQL\<close>, whose data is the array \<^verbatim>\<open>queryChunks\<close>: \<^verbatim>\<open>eq(left, right)\<close> is the
  template \<^verbatim>\<open>sql`${left} = ${right}`\<close>, and \<^verbatim>\<open>and(...)\<close> drops the undefined conditions and
  joins the others with \<^verbatim>\<open>' and '\<close> between parentheses. Such an object has none of the
  properties \<^verbatim>\<open>column\<close>, \<^verbatim>\<open>value\<close>, \<^verbatim>\<open>sql\<close>, \<^verbatim>\<open>params\<close>, \<^verbatim>\<open>type\<close>, \<^verbatim>\<open>conditions\<close> or
  \<^verbatim>\<open>name\<close>.
\<close>

definition sqlObject :: "chunk list \<Rightarrow> cond" where
  "sqlObject chunks = CObject None JUndefined None None None None (Some chunks)"

definition chunksOf :: "cond \<Rightarrow> chunk list" where
  "chunksOf c = (case c of CObject col v sq ps ty cs (Some chunks) \<Rightarrow> chunks | _ \<Rightarrow> [])"

definition drizzle_eq :: "column \<Rightarrow> jsval \<Rightarrow> cond" where
  "drizzle_eq left right =
     sqlObject [StringChunk [], ColumnChunk left, StringChunk '' = '', ParamChunk right, StringChunk []]"

fun joinChunks :: "cond list \<Rightarrow> chunk list" where
  "joinChunks [] = []"
| "joinChunks [c] = [SQLChunk (chunksOf c)]"
| "joinChunks (c # cs) = SQLChunk (chunksOf c) # StringChunk '' and '' # joinChunks cs"

definition drizzle_and :: "cond list \<Rightarrow> cond" where
  "drizzle_and unfiltered =
     (let conditions = filter (\<lambda>c. case c of CFalsy \<Rightarrow> False | _ \<Rightarrow> True) unfiltered
      in if conditions = [] then CFalsy
         else if length conditions = 1 then sqlObject (joinChunks conditions)
         else sqlObject [StringChunk ''('', SQLChunk (joinChunks conditions), StringChunk '')''])"

definition drizzle_desc :: "column \<Rightarrow> path" where
  \<comment> \<open>\<^verbatim>\<open>desc(column)\<close> is an SQL object too: as a path, an object without a name\<close>
  "drizzle_desc c = PObject None"

definition users_id :: column where "users_id = Column ''users'' ''id''"
definition courses_id :: column where "courses_id = Column ''courses'' ''id''"
definition enrollments_courseId :: column where
  "enrollments_courseId = Column ''enrollments'' ''course_id''"
definition enrollments_studentId :: column where
  "enrollments_studentId = Column ''enrollments'' ''student_id''"
definition assignments_id :: column where "assignments_id = Column ''assignments'' ''id''"
definition submissions_id :: column where "submissions_id = Column ''submissions'' ''id''"
definition submissions_assignmentId :: column where
  "submissions_assignmentId = Column ''submissions'' ''assignment_id''"
definition submissions_studentId :: column where
  "submissions_studentId = Column ''submissions'' ''student_id''"
definition grades_submissionId :: column where
  "grades_submissionId = Column ''grades'' ''submission_id''"
definition notifications_id :: column where "notifications_id = Column ''notifications'' ''id''"
definition notifications_userId :: column where
  "notifications_userId = Column ''notifications'' ''user_id''"
definition notifications_createdAt :: column where
  "notifications_createdAt = Column ''notifications'' ''created_at''"

section \<open>The server's state\<close>

text \<open>
  The state a request handler runs in: the store, the registry \<^verbatim>\<open>clients\<close> of live
  connections, and what the platform supplies: the results of the coming calls of
  \<^verbatim>\<open>generateId()\<close> and of \<^verbatim>\<open>new Date().toISOString()\<close>, the pattern behind
  \<^verbatim>\<open>z.string().uuid()\<close>, the comparison of values of different types, and the conversion
  of a number to a string. A handler runs from its start to its response without another
  handler in between.
\<close>

record websocket =
  readyState :: nat
  outbox :: "jsval list"

record world =
  mockData :: mockData
  clients :: "jsval \<Rightarrow> websocket option"
  randomIds :: "nat \<Rightarrow> string"
  clock :: "nat \<Rightarrow> string"
  uuid :: "string \<Rightarrow> bool"
  coerce :: "jsval \<Rightarrow> jsval \<Rightarrow> bool"
  numberToString :: "rat \<Rightarrow> string"

datatype exn = ZodError | TypeError

type_synonym 'a io = "world \<Rightarrow> (exn + 'a) \<times> world"

definition ioReturn :: "'a \<Rightarrow> 'a io" where
  "ioReturn x = (\<lambda>w. (Inr x, w))"

definition ioThrow :: "exn \<Rightarrow> 'a io" where
  "ioThrow e = (\<lambda>w. (Inl e, w))"

definition ioBind :: "'a io \<Rightarrow> ('a \<Rightarrow> 'b io) \<Rightarrow> 'b io" where
  "ioBind m f = (\<lambda>w. case m w of (Inl e, w') \<Rightarrow> (Inl e, w') | (Inr x, w') \<Rightarrow> f x w')"

fun mapIO :: "('a \<Rightarrow> 'b io) \<Rightarrow> 'a list \<Rightarrow> 'b list io" where
  \<comment> \<open>\<^verbatim>\<open>await Promise.all(xs.map(async x => ...))\<close> over callbacks that only read\<close>
  "mapIO f [] = ioReturn []"
| "mapIO f (x # xs) = ioBind (f x) (\<lambda>y. ioBind (mapIO f xs) (\<lambda>ys. ioReturn (y # ys)))"

fun forIO :: "('a \<Rightarrow> unit io) \<Rightarrow> 'a list \<Rightarrow> unit io" where
  \<comment> \<open>\<^verbatim>\<open>for (const x of xs) { ... }\<close>\<close>
  "forIO f [] = ioReturn ()"
| "forIO f (x # xs) = ioBind (f x) (\<lambda>u. forIO f xs)"

definition generateId :: "string io" where
  "generateId = (\<lambda>w. (Inr (randomIds w 0), w\<lparr>randomIds := (\<lambda>n. randomIds w (Suc n))\<rparr>))"

definition nowISOString :: "string io" where
  "nowISOString = (\<lambda>w. (Inr (clock w 0), w\<lparr>clock := (\<lambda>n. clock w (Suc n))\<rparr>))"

definition selectFrom :: "table \<Rightarrow> cond \<Rightarrow> int option \<Rightarrow> path option \<Rightarrow> row list io" where
  \<comment> \<open>\<^verbatim>\<open>await db.select().from(t).where(c)\<close>, with \<^verbatim>\<open>.limit(n)\<close> or \<^verbatim>\<open>.orderBy(field)\<close>
      after it where given\<close>
  "selectFrom t c limitArg orderArg =
     (\<lambda>w. case whereQ c (fromTable (mockData w) None t) of
             None \<Rightarrow> (Inl TypeError, w)
           | Some q \<Rightarrow>
               (let q1 = (case orderArg of Some field \<Rightarrow> orderByQ field Asc q | None \<Rightarrow> q);
                    q2 = (case limitArg of Some n \<Rightarrow> limitQ n q1 | None \<Rightarrow> q1)
                in (Inr (thenQ (coerce w) (mockData w) q2), w)))"

definition db_insert :: "table \<Rightarrow> row \<Rightarrow> row io" where
  \<comment> \<open>\<^verbatim>\<open>db.insert(t).values(data).returning()\<close>; resolves to the one new record\<close>
  "db_insert t values =
     ioBind nowISOString (\<lambda>now.
     ioBind generateId (\<lambda>gid.
       (\<lambda>w. let name = getTableName t; r = newRecord name values gid now
            in case tableRows (mockData w) name of
                 None \<Rightarrow> (Inl TypeError, w)
               | Some rs \<Rightarrow> (Inr r, w\<lparr>mockData := setTableRows (mockData w) name (rs @ [r])\<rparr>))))"

definition db_update :: "table \<Rightarrow> row \<Rightarrow> cond \<Rightarrow> unit io" where
  \<comment> \<open>\<^verbatim>\<open>db.update(t).set(updateData).where(c)\<close>\<close>
  "db_update t updateData c =
     (\<lambda>w. let name = getTableName t
          in case tableRows (mockData w) name of
               None \<Rightarrow> (Inr (), w)
             | Some rs \<Rightarrow>
                 (let (rs', ok) = updateRows c updateData rs
                  in (if ok then Inr () else Inl TypeError,
                      w\<lparr>mockData := setTableRows (mockData w) name rs'\<rparr>)))"

section \<open>The class DatabaseStorage\<close>

definition firstRow :: "row list \<Rightarrow> row option" where
  \<comment> \<open>\<^verbatim>\<open>const [x] = rows; return x || undefined\<close>\<close>
  "firstRow rs = (case rs of [] \<Rightarrow> None | r # rest \<Rightarrow> Some r)"

definition getUser :: "jsval \<Rightarrow> row option io" where
  "getUser uid = ioBind (selectFrom schema_users (drizzle_eq users_id uid) None None)
                   (\<lambda>rs. ioReturn (firstRow rs))"

definition getCourse :: "jsval \<Rightarrow> row option io" where
  "getCourse cid = ioBind (selectFrom schema_courses (drizzle_eq courses_id cid) None None)
                     (\<lambda>rs. ioReturn (firstRow rs))"

definition getAssignment :: "jsval \<Rightarrow> row option io" where
  "getAssignment aid = ioBind (selectFrom schema_assignments (drizzle_eq assignments_id aid) None None)
                         (\<lambda>rs. ioReturn (firstRow rs))"

definition getSubmission :: "jsval \<Rightarrow> row option io" where
  "getSubmission sid = ioBind (selectFrom schema_submissions (drizzle_eq submissions_id sid) None None)
                         (\<lambda>rs. ioReturn (firstRow rs))"

definition getEnrollmentsByCourse :: "jsval \<Rightarrow> row list io" where
  "getEnrollmentsByCourse cid =
     selectFrom schema_enrollments (drizzle_eq enrollments_courseId cid) None None"

definition getNotificationsByUser :: "jsval \<Rightarrow> row list io" where
  "getNotificationsByUser uid =
     selectFrom schema_notifications (drizzle_eq notifications_userId uid) None
       (Some (drizzle_desc notifications_createdAt))"

definition createEnrollment :: "row \<Rightarrow> row io" where
  "createEnrollment values = db_insert schema_enrollments values"

definition createAssignment :: "row \<Rightarrow> row io" where
  "createAssignment values = db_insert schema_assignments values"

definition createSubmission :: "row \<Rightarrow> row io" where
  "createSubmission values = db_insert schema_submissions values"


definition createMaterial :: "row \<Rightarrow> row io" where
  "createMaterial values = db_insert schema_materials values"

definition createNotification :: "row \<Rightarrow> row io" where
  "createNotification values = db_insert schema_notifications values"

definition markNotificationAsRead :: "jsval \<Rightarrow> unit io" where
  "markNotificationAsRead nid =
     db_update schema_notifications [(''isRead'', JBool True)] (drizzle_eq notifications_id nid)"

section \<open>Requests and responses\<close>

text \<open>
  A response is its status and its body. \<open>Message m\<close> is the body \<^verbatim>\<open>{ message: m }\<close>,
  \<open>ValidationError\<close> the body \<^verbatim>\<open>{ message: "Validation error", errors: error.errors }\<close> (the
  list of issues is not modelled), and \<open>ErrorMessage e\<close> the body
  \<^verbatim>\<open>{ message: error.message }\<close> of the handlers' \<^verbatim>\<open>catch\<close>.
\<close>

datatype body = Json jsval | Message string | ValidationError | ErrorMessage exn

record response =
  status :: nat
  body :: body

record session =
  userId :: "string option"
  userRole :: "string option"

definition respond :: "nat \<Rightarrow> body \<Rightarrow> response" where
  "respond code b = \<lparr>status = code, body = b\<rparr>"

definition json :: "jsval \<Rightarrow> response" where
  \<comment> \<open>\<^verbatim>\<open>res.json(v)\<close>\<close>
  "json v = respond 200 (Json (jsonCopy v))"

definition sessionUserId :: "session \<Rightarrow> jsval" where
  "sessionUserId sess = (case userId sess of Some u \<Rightarrow> JStr u | None \<Rightarrow> JUndefined)"

definition requireAuth :: "session \<Rightarrow> bool" where
  \<comment> \<open>true when the middleware calls \<^verbatim>\<open>next()\<close>\<close>
  "requireAuth sess = truthy (sessionUserId sess)"

definition requireRole :: "string \<Rightarrow> session \<Rightarrow> bool" where
  "requireRole role sess = (truthy (sessionUserId sess) \<and> userRole sess = Some role)"

definition unauthorized :: response where
  "unauthorized = respond 401 (Message ''Unauthorized'')"

definition forbidden :: response where
  "forbidden = respond 403 (Message ''Forbidden'')"

definition handle :: "response io \<Rightarrow> world \<Rightarrow> response \<times> world" where
  \<comment> \<open>\<^verbatim>\<open>try { ... } catch (error) { res.status(500).json({ message: error.message }) }\<close>\<close>
  "handle m w =
     (case m w of
        (Inr r, w') \<Rightarrow> (r, w')
      | (Inl e, w') \<Rightarrow> (respond 500 (ErrorMessage e), w'))"

definition handleZod :: "response io \<Rightarrow> world \<Rightarrow> response \<times> world" where
  \<comment> \<open>the \<^verbatim>\<open>catch\<close> that answers a ZodError with status 400\<close>
  "handleZod m w =
     (case m w of
        (Inr r, w') \<Rightarrow> (r, w')
      | (Inl ZodError, w') \<Rightarrow> (respond 400 ValidationError, w')
      | (Inl e, w') \<Rightarrow> (respond 500 (ErrorMessage e), w'))"

fun joinComma :: "string list \<Rightarrow> string" where
  "joinComma [] = []"
| "joinComma [s] = s"
| "joinComma (s # rest) = s @ '','' @ joinComma rest"

fun templateStr :: "(rat \<Rightarrow> string) \<Rightarrow> jsval \<Rightarrow> string" where
  \<comment> \<open>the conversion of \<^verbatim>\<open>${v}\<close> in a template string\<close>
  "templateStr ns (JStr s) = s"
| "templateStr ns JUndefined = ''undefined''"
| "templateStr ns JNull = ''null''"
| "templateStr ns (JBool b) = (if b then ''true'' else ''false'')"
| "templateStr ns (JNum n) = ns n"
| "templateStr ns (JObj kvs) = ''[object Object]''"
| "templateStr ns (JArr xs) =
     joinComma (map (\<lambda>v. if v = JUndefined \<or> v = JNull then [] else templateStr ns v) xs)"

definition broadcastNotification :: "jsval \<Rightarrow> row \<Rightarrow> unit io" where
  "broadcastNotification uid notification =
     (\<lambda>w. case clients w uid of
             Some client \<Rightarrow>
               if readyState client = 1
               then (Inr (), w\<lparr>clients := (clients w)(uid \<mapsto> client\<lparr>outbox := outbox client @
                       [jsonCopy (JObj [(''type'', JStr ''notification''), (''data'', JObj notification)])]\<rparr>)\<rparr>)
               else (Inr (), w)
           | None \<Rightarrow> (Inr (), w))"

definition notify :: "jsval \<Rightarrow> string \<Rightarrow> string \<Rightarrow> unit io" where
  \<comment> \<open>the two statements with which four handlers announce an event:
      \<^verbatim>\<open>const notification = await storage.createNotification({ userId, type, content,
      isRead: false }); broadcastNotification(userId, notification);\<close>\<close>
  "notify uid type content =
     ioBind (createNotification
               [(''userId'', uid), (''type'', JStr type), (''content'', JStr content),
                (''isRead'', JBool False)])
       (\<lambda>notification. broadcastNotification uid notification)"

definition enrollmentCheck :: "jsval \<Rightarrow> jsval \<Rightarrow> row list io" where
  \<comment> \<open>the query every access check of \<^verbatim>\<open>routes.ts\<close> runs:
      \<^verbatim>\<open>db.select().from(enrollments).where(and(eq(enrollments.courseId, courseId),
      eq(enrollments.studentId, userId))).limit(1)\<close>\<close>
  "enrollmentCheck cid uid =
     selectFrom schema_enrollments
       (drizzle_and [drizzle_eq enrollments_courseId cid, drizzle_eq enrollments_studentId uid])
       (Some 1) None"

section \<open>The route handlers\<close>

definition get_api_courses_id :: "world \<Rightarrow> session \<Rightarrow> string \<Rightarrow> response \<times> world" where
  \<comment> \<open>\<^verbatim>\<open>GET /api/courses/:id\<close>\<close>
  "get_api_courses_id w sess idParam =
     (if \<not> requireAuth sess then (unauthorized, w)
      else handle
        (ioBind (getCourse (JStr idParam)) (\<lambda>found.
           case found of
             None \<Rightarrow> ioReturn (respond 404 (Message ''Course not found''))
           | Some course \<Rightarrow>
               ioBind (enrollmentCheck (JStr idParam) (sessionUserId sess)) (\<lambda>check.
                 let isTeacher = (userRole sess = Some ''teacher'' \<and>
                                  strictEq (getProp course ''teacherId'') (sessionUserId sess));
                     isEnrolled = (userRole sess = Some ''student'' \<and> 0 < length check)
                 in if \<not> isTeacher \<and> \<not> isEnrolled
                    then ioReturn (respond 403 (Message ''You don't have access to this course''))
                    else ioBind (getUser (getProp course ''teacherId'')) (\<lambda>teacher.
                           ioReturn (json (JObj (setProp course ''teacher''
                             (JObj [(''name'',
                                (case teacher of
                                   Some t \<Rightarrow> if truthy (getProp t ''name'') then getProp t ''name''
                                              else JStr ''Unknown''
                                 | None \<Rightarrow> JStr ''Unknown''))]))))))))
        w)"

definition withStudent :: "row \<Rightarrow> row io" where
  \<comment> \<open>the callback of \<^verbatim>\<open>GET /api/courses/:id/enrollments\<close>; reading \<^verbatim>\<open>student.name\<close> of
      an undefined student throws\<close>
  "withStudent enrollment =
     ioBind (selectFrom schema_users (drizzle_eq users_id (getProp enrollment ''studentId'')) None None)
       (\<lambda>rs. case firstRow rs of
                None \<Rightarrow> ioThrow TypeError
              | Some student \<Rightarrow>
                  ioReturn (setProp enrollment ''student''
                    (JObj [(''name'', getProp student ''name''), (''email'', getProp student ''email'')])))"

definition get_api_courses_id_enrollments :: "world \<Rightarrow> session \<Rightarrow> string \<Rightarrow> response \<times> world" where
  \<comment> \<open>\<^verbatim>\<open>GET /api/courses/:id/enrollments\<close>\<close>
  "get_api_courses_id_enrollments w sess idParam =
     (if \<not> requireAuth sess then (unauthorized, w)
      else if \<not> requireRole ''teacher'' sess then (forbidden, w)
      else handle
        (ioBind (getCourse (JStr idParam)) (\<lambda>found.
           case found of
             None \<Rightarrow> ioReturn (respond 403
                        (Message ''You don't have permission to view these enrollments''))
           | Some course \<Rightarrow>
               if \<not> strictEq (getProp course ''teacherId'') (sessionUserId sess)
               then ioReturn (respond 403
                      (Message ''You don't have permission to view these enrollments''))
               else ioBind (selectFrom schema_enrollments
                              (drizzle_eq enrollments_courseId (JStr idParam)) None None)
                      (\<lambda>courseEnrollments.
                         ioBind (mapIO withStudent courseEnrollments) (\<lambda>enrollmentsWithStudents.
                           ioReturn (json (JArr (map JObj enrollmentsWithStudents)))))))
        w)"

definition notifyStudent :: "string \<Rightarrow> row \<Rightarrow> unit io" where
  \<comment> \<open>the body of the loop of \<^verbatim>\<open>POST /api/assignments\<close>\<close>
  "notifyStudent content enrollment =
     notify (getProp enrollment ''studentId'') ''Assignment'' content"

definition post_api_assignments :: "world \<Rightarrow> session \<Rightarrow> row \<Rightarrow> response \<times> world" where
  \<comment> \<open>\<^verbatim>\<open>POST /api/assignments\<close>\<close>
  "post_api_assignments w sess reqBody =
     (if \<not> requireAuth sess then (unauthorized, w)
      else if \<not> requireRole ''teacher'' sess then (forbidden, w)
      else handle
        (ioBind (getCourse (getProp reqBody ''courseId'')) (\<lambda>found.
           case found of
             None \<Rightarrow> ioReturn (respond 403
                        (Message ''You don't have permission to create assignments for this course''))
           | Some course \<Rightarrow>
               if \<not> strictEq (getProp course ''teacherId'') (sessionUserId sess)
               then ioReturn (respond 403
                      (Message ''You don't have permission to create assignments for this course''))
               else ioBind (createAssignment reqBody) (\<lambda>assignment.
                    ioBind (getEnrollmentsByCourse (getProp reqBody ''courseId'')) (\<lambda>courseEnrollments.
                    ioBind (forIO (notifyStudent
                              (''New assignment in '' @
                               templateStr (numberToString w) (getProp course ''title'') @ '': '' @
                               templateStr (numberToString w) (getProp assignment ''title'')))
                              courseEnrollments) (\<lambda>u.
                    ioReturn (json (JObj assignment)))))))
        w)"

definition post_api_materials :: "world \<Rightarrow> session \<Rightarrow> row \<Rightarrow> response \<times> world" where
  \<comment> \<open>\<^verbatim>\<open>POST /api/materials\<close>\<close>
  "post_api_materials w sess reqBody =
     (if \<not> requireAuth sess then (unauthorized, w)
      else if \<not> requireRole ''teacher'' sess then (forbidden, w)
      else handle
        (ioBind (getCourse (getProp reqBody ''courseId'')) (\<lambda>found.
           case found of
             None \<Rightarrow> ioReturn (respond 403
                        (Message ''You don't have permission to add materials to this course''))
           | Some course \<Rightarrow>
               if \<not> strictEq (getProp course ''teacherId'') (sessionUserId sess)
               then ioReturn (respond 403
                      (Message ''You don't have permission to add materials to this course''))
               else ioBind (createMaterial reqBody) (\<lambda>material. ioReturn (json (JObj material)))))
        w)"

definition withGrades :: "row \<Rightarrow> row io" where
  \<comment> \<open>the callback of \<^verbatim>\<open>GET /api/assignments/:id\<close>\<close>
  "withGrades submission =
     ioBind (selectFrom schema_users (drizzle_eq users_id (getProp submission ''studentId'')) None None)
       (\<lambda>rs.
     ioBind (selectFrom schema_grades (drizzle_eq grades_submissionId (getProp submission ''id'')) None None)
       (\<lambda>submissionGrades.
          case firstRow rs of
            None \<Rightarrow> ioThrow TypeError
          | Some student \<Rightarrow>
              ioReturn (setProp (setProp submission ''student''
                  (JObj [(''name'', getProp student ''name''), (''email'', getProp student ''email'')]))
                ''grades'' (JArr (map JObj submissionGrades)))))"

definition get_api_assignments_id :: "world \<Rightarrow> session \<Rightarrow> string \<Rightarrow> response \<times> world" where
  \<comment> \<open>\<^verbatim>\<open>GET /api/assignments/:id\<close>; \<^verbatim>\<open>course.teacherId\<close> is read only when the role is
      teacher, \<^verbatim>\<open>course.title\<close> for the response\<close>
  "get_api_assignments_id w sess idParam =
     (if \<not> requireAuth sess then (unauthorized, w)
      else handle
        (ioBind (selectFrom schema_assignments (drizzle_eq assignments_id (JStr idParam)) None None)
           (\<lambda>found.
           case firstRow found of
             None \<Rightarrow> ioReturn (respond 404 (Message ''Assignment not found''))
           | Some assignment \<Rightarrow>
               ioBind (selectFrom schema_courses
                         (drizzle_eq courses_id (getProp assignment ''courseId'')) None None) (\<lambda>cs.
                 if userRole sess = Some ''teacher'' \<and> firstRow cs = None then ioThrow TypeError
                 else
                   ioBind (enrollmentCheck (getProp assignment ''courseId'') (sessionUserId sess))
                     (\<lambda>check.
                     let isTeacher =
                           (case firstRow cs of
                              Some course \<Rightarrow> userRole sess = Some ''teacher'' \<and>
                                strictEq (getProp course ''teacherId'') (sessionUserId sess)
                            | None \<Rightarrow> False);
                         isEnrolled = (userRole sess = Some ''student'' \<and> 0 < length check)
                     in if \<not> isTeacher \<and> \<not> isEnrolled
                        then ioReturn (respond 403 (Message ''You don't have access to this assignment''))
                        else
                          ioBind (if isEnrolled \<and> \<not> isTeacher
                                  then selectFrom schema_submissions
                                         (drizzle_and
                                            [drizzle_eq submissions_assignmentId (getProp assignment ''id''),
                                             drizzle_eq submissions_studentId (sessionUserId sess)])
                                         None None
                                  else selectFrom schema_submissions
                                         (drizzle_eq submissions_assignmentId (getProp assignment ''id''))
                                         None None) (\<lambda>assignmentSubmissions.
                          ioBind (mapIO withGrades assignmentSubmissions) (\<lambda>submissionsWithGrades.
                            case firstRow cs of
                              None \<Rightarrow> ioThrow TypeError
                            | Some course \<Rightarrow>
                                ioReturn (json (JObj
                                  (setProp (setProp assignment ''course''
                                              (JObj [(''title'', getProp course ''title'')]))
                                     ''submissions'' (JArr (map JObj submissionsWithGrades)))))))))))
        w)"

definition enrollmentSchema_parse :: "(string \<Rightarrow> bool) \<Rightarrow> row \<Rightarrow> exn + jsval" where
  \<comment> \<open>\<^verbatim>\<open>z.object({ courseId: z.string().uuid(...) }).parse(req.body)\<close>, giving the courseId\<close>
  "enrollmentSchema_parse isUuid reqBody =
     (case getProp reqBody ''courseId'' of
        JStr s \<Rightarrow> if isUuid s then Inr (JStr s) else Inl ZodError
      | _ \<Rightarrow> Inl ZodError)"

definition post_api_enrollments :: "world \<Rightarrow> session \<Rightarrow> row \<Rightarrow> response \<times> world" where
  \<comment> \<open>\<^verbatim>\<open>POST /api/enrollments\<close>\<close>
  "post_api_enrollments w sess reqBody =
     (if \<not> requireAuth sess then (unauthorized, w)
      else if \<not> requireRole ''student'' sess then (forbidden, w)
      else handleZod
        (case enrollmentSchema_parse (uuid w) reqBody of
           Inl e \<Rightarrow> ioThrow e
         | Inr courseId \<Rightarrow>
             ioBind (getCourse courseId) (\<lambda>found.
               case found of
                 None \<Rightarrow> ioReturn (respond 404 (Message ''Course not found''))
               | Some course \<Rightarrow>
                   ioBind (enrollmentCheck courseId (sessionUserId sess)) (\<lambda>existingEnrollments.
                     if 0 < length existingEnrollments
                     then ioReturn (respond 400 (Message ''Already enrolled in this course''))
                     else
                       ioBind (createEnrollment
                                 [(''courseId'', courseId), (''studentId'', sessionUserId sess)])
                         (\<lambda>enrollment.
                       ioBind (notify (sessionUserId sess) ''Enrollment''
                                 (''You've been enrolled in '' @
                                  templateStr (numberToString w) (getProp course ''title''))) (\<lambda>u.
                       ioReturn (json (JObj enrollment)))))))
        w)"

definition post_api_submissions :: "world \<Rightarrow> session \<Rightarrow> row \<Rightarrow> response \<times> world" where
  \<comment> \<open>\<^verbatim>\<open>POST /api/submissions\<close>; \<^verbatim>\<open>course!.teacherId\<close> throws when no course is found\<close>
  "post_api_submissions w sess reqBody =
     (if \<not> requireAuth sess then (unauthorized, w)
      else if \<not> requireRole ''student'' sess then (forbidden, w)
      else handle
        (ioBind (getAssignment (getProp reqBody ''assignmentId'')) (\<lambda>found.
           case found of
             None \<Rightarrow> ioReturn (respond 404 (Message ''Assignment not found''))
           | Some assignment \<Rightarrow>
               ioBind (enrollmentCheck (getProp assignment ''courseId'') (sessionUserId sess))
                 (\<lambda>check.
                 if length check = 0
                 then ioReturn (respond 403 (Message ''You are not enrolled in this course''))
                 else
                   ioBind (createSubmission
                             [(''assignmentId'', getProp reqBody ''assignmentId''),
                              (''studentId'', sessionUserId sess),
                              (''content'', getProp reqBody ''content''),
                              (''fileUrl'', getProp reqBody ''fileUrl'')]) (\<lambda>submission.
                   ioBind (getCourse (getProp assignment ''courseId'')) (\<lambda>course.
                     case course of
                       None \<Rightarrow> ioThrow TypeError
                     | Some c \<Rightarrow>
                         ioBind (notify (getProp c ''teacherId'') ''Submission''
                                   (''New submission for '' @
                                    templateStr (numberToString w) (getProp assignment ''title'')))
                           (\<lambda>u. ioReturn (json (JObj submission))))))))
        w)"




definition get_api_notifications :: "world \<Rightarrow> session \<Rightarrow> response \<times> world" where
  \<comment> \<open>\<^verbatim>\<open>GET /api/notifications\<close>\<close>
  "get_api_notifications w sess =
     (if \<not> requireAuth sess then (unauthorized, w)
      else handle
        (ioBind (getNotificationsByUser (sessionUserId sess)) (\<lambda>userNotifications.
           ioReturn (json (JArr (map JObj userNotifications)))))
        w)"

definition patch_api_notifications_id_read :: "world \<Rightarrow> session \<Rightarrow> string \<Rightarrow> response \<times> world" where
  \<comment> \<open>\<^verbatim>\<open>PATCH /api/notifications/:id/read\<close>\<close>
  "patch_api_notifications_id_read w sess idParam =
     (if \<not> requireAuth sess then (unauthorized, w)
      else handle
        (ioBind (selectFrom schema_notifications (drizzle_eq notifications_id (JStr idParam))
                   (Some 1) None) (\<lambda>notification.
           case notification of
             [] \<Rightarrow> ioReturn (respond 404 (Message ''Notification not found''))
           | n0 # rest \<Rightarrow>
               if \<not> strictEq (getProp n0 ''userId'') (sessionUserId sess)
               then ioReturn (respond 403
                      (Message ''You don't have permission to modify this notification''))
               else ioBind (markNotificationAsRead (JStr idParam)) (\<lambda>u.
                      ioReturn (json (JObj [(''success'', JBool True)])))))
        w)"

section \<open>Select queries over shared objects\<close>

text \<open>
  The records of the store are objects that the arrays of \<^verbatim>\<open>mockData\<close> refer to, and
  \<^verbatim>\<open>db.update\<close> changes them in place. To say that a select changes none of them, the
  class MockQuery is modelled a second time with the sharing made explicit: a heap of
  cells, each an object or an array of addresses, in which every object or array literal,
  \<^verbatim>\<open>map\<close>, \<^verbatim>\<open>filter\<close>, \<^verbatim>\<open>slice\<close>, spread and \<^verbatim>\<open>JSON.parse\<close> allocates, and
  \<^verbatim>\<open>result.sort\<close> and the assignments \<^verbatim>\<open>result.teacher = ...\<close> of \<^verbatim>\<open>performJoin\<close> write
  in place. \<open>fresh\<close> is the next free address, the cells in use being those below
  it, and \<open>hstore\<close> gives the address of the array of each table.
\<close>

datatype cell = ObjCell row | ArrCell "nat list"

record heap =
  cells :: "nat \<Rightarrow> cell option"
  fresh :: nat

definition alloc :: "cell \<Rightarrow> heap \<Rightarrow> nat \<times> heap" where
  "alloc c h = (fresh h, h\<lparr>cells := (cells h)(fresh h \<mapsto> c), fresh := Suc (fresh h)\<rparr>)"

definition readObj :: "heap \<Rightarrow> nat \<Rightarrow> row" where
  "readObj h a = (case cells h a of Some (ObjCell r) \<Rightarrow> r | _ \<Rightarrow> [])"

definition readArr :: "heap \<Rightarrow> nat \<Rightarrow> nat list" where
  "readArr h a = (case cells h a of Some (ArrCell xs) \<Rightarrow> xs | _ \<Rightarrow> [])"

definition writeCell :: "nat \<Rightarrow> cell \<Rightarrow> heap \<Rightarrow> heap" where
  "writeCell a c h = h\<lparr>cells := (cells h)(a \<mapsto> c)\<rparr>"

fun allocAll :: "row list \<Rightarrow> heap \<Rightarrow> nat list \<times> heap" where
  "allocAll [] h = ([], h)"
| "allocAll (r # rs) h =
     (let (a, h1) = alloc (ObjCell r) h; (rest, h2) = allocAll rs h1 in (a # rest, h2))"

type_synonym hstore = "string \<Rightarrow> nat option"

definition tableArray :: "hstore \<Rightarrow> heap \<Rightarrow> string \<Rightarrow> nat list" where
  "tableArray st h name = (case st name of Some a \<Rightarrow> readArr h a | None \<Rightarrow> [])"

record hquery =
  h_tableName :: string
  h_data :: nat
  h_selectedFields :: "(string \<times> selection) list option"
  h_joins :: "(string \<times> cond) list"
  h_whereConditions :: "cond list"
  h_limitCount :: "int option"
  h_orderByFields :: "(path \<times> direction) list"

definition h_from :: "hstore \<Rightarrow> (string \<times> selection) list option \<Rightarrow> table \<Rightarrow> heap \<Rightarrow> hquery \<times> heap" where
  "h_from st fieldSpec t h =
     (let (copies, h1) = allocAll (map (\<lambda>a. copyRow (readObj h a)) (tableArray st h (getTableName t))) h;
          (d, h2) = alloc (ArrCell copies) h1
      in (\<lparr>h_tableName = getTableName t, h_data = d, h_selectedFields = fieldSpec, h_joins = [],
           h_whereConditions = [], h_limitCount = None, h_orderByFields = []\<rparr>, h2))"

fun h_filter :: "cond \<Rightarrow> heap \<Rightarrow> nat list \<Rightarrow> nat list option" where
  "h_filter c h [] = Some []"
| "h_filter c h (a # rest) =
     (case parseCondition c (readObj h a) of
        None \<Rightarrow> None
      | Some b \<Rightarrow>
          (case h_filter c h rest of
             None \<Rightarrow> None
           | Some kept \<Rightarrow> Some (if b then a # kept else kept)))"

definition h_where :: "cond \<Rightarrow> hquery \<Rightarrow> heap \<Rightarrow> hquery option \<times> heap" where
  "h_where c q h =
     (case c of
        CFalsy \<Rightarrow> (Some q, h)
      | _ \<Rightarrow>
          (case h_filter c h (readArr h (h_data q)) of
             None \<Rightarrow> (None, h)
           | Some kept \<Rightarrow>
               (let (d, h1) = alloc (ArrCell kept) h
                in (Some (q\<lparr>h_whereConditions := h_whereConditions q @ [c], h_data := d\<rparr>), h1))))"

definition h_joinOne :: "row list \<Rightarrow> string \<Rightarrow> nat \<Rightarrow> heap \<Rightarrow> nat \<times> heap" where
  "h_joinOne rightData rightTableName left h =
     (let (res, h1) = alloc (ObjCell (readObj h left)) h
      in (res, writeCell res (ObjCell (joinRecord rightData rightTableName (readObj h1 res))) h1))"

fun h_mapJoin :: "row list \<Rightarrow> string \<Rightarrow> nat list \<Rightarrow> heap \<Rightarrow> nat list \<times> heap" where
  "h_mapJoin rightData name [] h = ([], h)"
| "h_mapJoin rightData name (a # rest) h =
     (let (r, h1) = h_joinOne rightData name a h; (rs, h2) = h_mapJoin rightData name rest h1
      in (r # rs, h2))"

definition h_performJoin :: "hstore \<Rightarrow> nat \<Rightarrow> string \<Rightarrow> heap \<Rightarrow> nat \<times> heap" where
  "h_performJoin st leftData rightTableName h =
     (let rightData = map (readObj h) (tableArray st h rightTableName);
          (joined, h1) = h_mapJoin rightData rightTableName (readArr h leftData) h
      in alloc (ArrCell joined) h1)"

fun h_joins_loop :: "hstore \<Rightarrow> (string \<times> cond) list \<Rightarrow> nat \<Rightarrow> heap \<Rightarrow> nat \<times> heap" where
  "h_joins_loop st [] result h = (result, h)"
| "h_joins_loop st ((name, c) # js) result h =
     (let (result', h1) = h_performJoin st result name h in h_joins_loop st js result' h1)"

definition h_then :: "(jsval \<Rightarrow> jsval \<Rightarrow> bool) \<Rightarrow> hstore \<Rightarrow> hquery \<Rightarrow> heap \<Rightarrow> nat \<times> heap" where
  "h_then co st q h =
     (let (r0, h0) = alloc (ArrCell (readArr h (h_data q))) h;
          (r1, h1) = h_joins_loop st (h_joins q) r0 h0;
          h2 = (if h_orderByFields q \<noteq> []
                then writeCell r1 (ArrCell (sortBy (\<lambda>a b. compareRows co (h_orderByFields q)
                                                        (readObj h1 a) (readObj h1 b))
                                              (readArr h1 r1))) h1
                else h1);
          (r3, h3) = (case h_limitCount q of
                        Some n \<Rightarrow> if n \<noteq> 0 then alloc (ArrCell (slice0 n (readArr h2 r1))) h2
                                  else (r1, h2)
                      | None \<Rightarrow> (r1, h2))
      in case h_selectedFields q of
           Some fieldSpec \<Rightarrow>
             (let (sel, h4) = allocAll (map (\<lambda>a. selectRecord fieldSpec (readObj h3 a)) (readArr h3 r3)) h3
              in alloc (ArrCell sel) h4)
         | None \<Rightarrow> (r3, h3))"

datatype step = Where cond | LeftJoin table cond | OrderBy path direction | Limit int

fun h_steps :: "step list \<Rightarrow> hquery \<Rightarrow> heap \<Rightarrow> hquery option \<times> heap" where
  "h_steps [] q h = (Some q, h)"
| "h_steps (Where c # ss) q h =
     (case h_where c q h of
        (None, h1) \<Rightarrow> (None, h1)
      | (Some q1, h1) \<Rightarrow> h_steps ss q1 h1)"
| "h_steps (LeftJoin t c # ss) q h =
     h_steps ss (q\<lparr>h_joins := h_joins q @ [(getTableName t, c)]\<rparr>) h"
| "h_steps (OrderBy field dir # ss) q h =
     h_steps ss (q\<lparr>h_orderByFields := h_orderByFields q @
        [(case field of PObject (Some n) \<Rightarrow> if n \<noteq> [] then PString n else field | _ \<Rightarrow> field, dir)]\<rparr>) h"
| "h_steps (Limit n # ss) q h = h_steps ss (q\<lparr>h_limitCount := Some n\<rparr>) h"

definition h_select ::
  "(jsval \<Rightarrow> jsval \<Rightarrow> bool) \<Rightarrow> hstore \<Rightarrow> (string \<times> selection) list option \<Rightarrow> table \<Rightarrow> step list \<Rightarrow>
   heap \<Rightarrow> row list option \<times> heap" where
  "h_select co st fieldSpec t ss h =
     (let (q, h1) = h_from st fieldSpec t h
      in case h_steps ss q h1 of
           (None, h2) \<Rightarrow> (None, h2)
         | (Some q2, h2) \<Rightarrow>
             (let (res, h3) = h_then co st q2 h2 in (Some (map (readObj h3) (readArr h3 res)), h3)))"

definition extends :: "nat \<Rightarrow> heap \<Rightarrow> heap \<Rightarrow> bool" where
  "extends n h h' = (n \<le> fresh h \<and> fresh h \<le> fresh h' \<and> (\<forall>a < n. cells h' a = cells h a))"


text \<open>
  The two models of a select are compared through the rows an array refers to. A store of
  values agrees with a heap when each table's rows are those its array refers to, all at
  addresses already allocated. A select is a table, a field selection and the sequence
  of the calls made on the query.
\<close>

definition hview :: "heap \<Rightarrow> nat \<Rightarrow> row list" where
  "hview h a = map (readObj h) (readArr h a)"

definition below :: "heap \<Rightarrow> nat \<Rightarrow> bool" where
  "below h a = (a < fresh h \<and> (\<forall>x \<in> set (readArr h a). x < fresh h))"

definition agrees :: "hstore \<Rightarrow> heap \<Rightarrow> mockData \<Rightarrow> bool" where
  "agrees st h md =
     (\<forall>name. tableRows md name = map_option (hview h) (st name) \<and>
             (\<forall>a. st name = Some a \<longrightarrow> below h a))"

fun v_steps :: "step list \<Rightarrow> mockQuery \<Rightarrow> mockQuery option" where
  "v_steps [] q = Some q"
| "v_steps (Where c # ss) q = (case whereQ c q of None \<Rightarrow> None | Some q1 \<Rightarrow> v_steps ss q1)"
| "v_steps (LeftJoin t c # ss) q = v_steps ss (leftJoinQ t c q)"
| "v_steps (OrderBy field dir # ss) q = v_steps ss (orderByQ field dir q)"
| "v_steps (Limit n # ss) q = v_steps ss (limitQ n q)"

definition v_select ::
  "(jsval \<Rightarrow> jsval \<Rightarrow> bool) \<Rightarrow> mockData \<Rightarrow> (string \<times> selection) list option \<Rightarrow> table \<Rightarrow>
   step list \<Rightarrow> row list option" where
  "v_select co md fieldSpec t ss = map_option (thenQ co md) (v_steps ss (fromTable md fieldSpec t))"

definition qrel :: "hquery \<Rightarrow> heap \<Rightarrow> mockQuery \<Rightarrow> bool" where
  "qrel q h vq =
     (below h (h_data q) \<and> hview h (h_data q) = data vq \<and> h_tableName q = tableName vq \<and>
      h_selectedFields q = selectedFields vq \<and> h_joins q = joins vq \<and>
      h_whereConditions q = whereConditions vq \<and> h_limitCount q = limitCount vq \<and>
      h_orderByFields q = orderByFields vq)"

section \<open>Example states\<close>

text \<open>
  The states and sessions the concrete evaluations below start from. The pattern of a UUID
  is taken in its common form: five groups of 8, 4, 4, 4 and 12 hexadecimal digits. The
  identifiers the store generates (\<^verbatim>\<open>Math.random().toString(36).substr(2, 9)\<close>) have at
  most nine characters.
\<close>

definition isHexDigit :: "char \<Rightarrow> bool" where
  "isHexDigit c = (c \<in> set ''0123456789abcdefABCDEF'')"

definition uuidShape :: "string \<Rightarrow> bool" where
  "uuidShape s =
     (case split s ''-'' of
        [a, b, c, d, e] \<Rightarrow>
          length a = 8 \<and> length b = 4 \<and> length c = 4 \<and> length d = 4 \<and> length e = 12 \<and>
          list_all isHexDigit (a @ b @ c @ d @ e)
      | _ \<Rightarrow> False)"

definition emptyStore :: mockData where
  "emptyStore = \<lparr>users = [], courses = [], enrollments = [], assignments = [], submissions = [],
     grades = [], discussions = [], materials = [], notifications = []\<rparr>"

definition idsFrom :: "string list \<Rightarrow> nat \<Rightarrow> string" where
  "idsFrom xs n = (if n < length xs then xs ! n else ''zzzzzzzzz'')"

definition serverWith :: "mockData \<Rightarrow> world" where
  \<comment> \<open>a server holding the given store, with no live connection; the examples compare and
      print strings only, so \<open>coerce\<close> and \<open>numberToString\<close> are never consulted and are
      given constant values\<close>
  "serverWith md =
     \<lparr>mockData = md,
      clients = (\<lambda>k. None),
      randomIds = idsFrom [''k3j9x0q1a'', ''p0o9i8u7y'', ''m4n5b6v7c''],
      clock = (\<lambda>n. ''2024-05-01T10:00:00.000Z''),
      uuid = uuidShape,
      coerce = (\<lambda>a b. False),
      numberToString = (\<lambda>n. ''0'')\<rparr>"

definition teacherSession :: "string \<Rightarrow> session" where
  "teacherSession u = \<lparr>userId = Some u, userRole = Some ''teacher''\<rparr>"

definition studentSession :: "string \<Rightarrow> session" where
  "studentSession u = \<lparr>userId = Some u, userRole = Some ''student''\<rparr>"

definition gradingStore :: mockData where
  \<comment> \<open>a teacher, a student enrolled in the teacher's course, one assignment, one submission\<close>
  "gradingStore = emptyStore
     \<lparr>users := [[(''id'', JStr ''t1''), (''name'', JStr ''Dr. Jane Smith''),
                 (''email'', JStr ''teacher@example.com''), (''role'', JStr ''teacher'')],
                [(''id'', JStr ''s1''), (''name'', JStr ''John Student''),
                 (''email'', JStr ''student@example.com''), (''role'', JStr ''student'')]],
      courses := [[(''id'', JStr ''c1''), (''title'', JStr ''Intro''), (''teacherId'', JStr ''t1'')]],
      enrollments := [[(''id'', JStr ''e1''), (''studentId'', JStr ''s1''), (''courseId'', JStr ''c1'')]],
      assignments := [[(''id'', JStr ''a1''), (''courseId'', JStr ''c1''), (''title'', JStr ''Essay'')]],
      submissions := [[(''id'', JStr ''sub1''), (''assignmentId'', JStr ''a1''),
                       (''studentId'', JStr ''s1''), (''content'', JStr ''answer'')]]\<rparr>"


definition campusStore :: mockData where
  "campusStore = emptyStore
     \<lparr>users := [[(''id'', JStr ''t1''), (''name'', JStr ''Dr. Jane Smith''), (''role'', JStr ''teacher'')],
                [(''id'', JStr ''t2''), (''name'', JStr ''Dr. Alan Kay''), (''role'', JStr ''teacher'')],
                [(''id'', JStr ''s1''), (''name'', JStr ''John Student''), (''role'', JStr ''student'')],
                [(''id'', JStr ''s2''), (''name'', JStr ''Mary Student''), (''role'', JStr ''student'')],
                [(''id'', JStr ''s3''), (''name'', JStr ''Paul Student''), (''role'', JStr ''student'')]],
      courses := [[(''id'', JStr ''c1''), (''title'', JStr ''Intro''), (''teacherId'', JStr ''t1'')],
                  [(''id'', JStr ''c2''), (''title'', JStr ''Algebra''), (''teacherId'', JStr ''t2'')]],
      enrollments := [[(''id'', JStr ''e1''), (''studentId'', JStr ''s1''), (''courseId'', JStr ''c1'')],
                      [(''id'', JStr ''e2''), (''studentId'', JStr ''s2''), (''courseId'', JStr ''c1'')]],
      assignments := [[(''id'', JStr ''a1''), (''courseId'', JStr ''c1''), (''title'', JStr ''Essay'')],
                      [(''id'', JStr ''a2''), (''courseId'', JStr ''c2''), (''title'', JStr ''Quiz'')]],
      submissions := [[(''id'', JStr ''sub1''), (''assignmentId'', JStr ''a1''),
                       (''studentId'', JStr ''s1''), (''content'', JStr ''answer one'')],
                      [(''id'', JStr ''sub2''), (''assignmentId'', JStr ''a1''),
                       (''studentId'', JStr ''s2''), (''content'', JStr ''answer two'')]],
      notifications := [[(''id'', JStr ''n1''), (''userId'', JStr ''s1''), (''type'', JStr ''Welcome''),
                         (''content'', JStr ''Welcome to EduLearn!''), (''isRead'', JBool False)],
                        [(''id'', JStr ''n2''), (''userId'', JStr ''s2''), (''type'', JStr ''Welcome''),
                         (''content'', JStr ''Welcome to EduLearn!''), (''isRead'', JBool False)]]\<rparr>"

definition enrolledStore :: mockData where
  "enrolledStore = gradingStore\<lparr>submissions := []\<rparr>"

definition exampleHeap :: heap where
  \<comment> \<open>two enrollment records at addresses 0 and 1, and the table's array at address 2\<close>
  "exampleHeap =
     \<lparr>cells = [0 \<mapsto> ObjCell [(''id'', JStr ''e1''), (''studentId'', JStr ''s1''), (''courseId'', JStr ''c1'')],
               1 \<mapsto> ObjCell [(''id'', JStr ''e2''), (''studentId'', JStr ''s2''), (''courseId'', JStr ''c1'')],
               2 \<mapsto> ArrCell [0, 1]],
      fresh = 3\<rparr>"

definition exampleTables :: hstore where
  "exampleTables = [''enrollments'' \<mapsto> 2]"

definition rowsOf :: "mockData \<Rightarrow> table \<Rightarrow> row list" where
  \<comment> \<open>\<^verbatim>\<open>mockData[getTableName(table)] || []\<close>\<close>
  "rowsOf md t = (case tableRows md (getTableName t) of Some rs \<Rightarrow> rs | None \<Rightarrow> [])"

section \<open>What the store answers to the handlers' conditions\<close>

text \<open>
  An SQL object has no property the parser looks for, so the parser accepts every record
  for it: a select keeps all the rows of its table, whatever the condition compares.
\<close>

lemma parseCondition_sql [simp]:
  "parseCondition (CObject None JUndefined None None None None chunks) r = Some True"
  by simp

lemma filterRows_sql [simp]:
  "filterRows (CObject None JUndefined None None None None chunks) rs = Some rs"
  by (induction rs) simp_all

lemma whereQ_sql [simp]:
  "whereQ (CObject None JUndefined None None None None chunks) q =
   Some (q\<lparr>whereConditions :=
             whereConditions q @ [CObject None JUndefined None None None None chunks]\<rparr>)"
  by (simp add: whereQ_def)

lemma jsLess_rows [simp]: "jsLess co (JObj a) (JObj b) = False"
  by (simp add: jsLess_def)

lemma compareRows_whole: "compareRows co [(PObject None, d)] a b = 0"
  by (simp add: getNestedValue_def)

lemma sortBy_const: "(\<And>x y. cmp x y = 0) \<Longrightarrow> sortBy cmp xs = xs"
proof (induction xs)
  case Nil
  then show ?case by simp
next
  case (Cons x xs)
  then show ?case by (cases xs) simp_all
qed

lemma sortBy_whole [simp]: "sortBy (compareRows co [(PObject None, d)]) xs = xs"
  by (rule sortBy_const) (rule compareRows_whole)

lemma rowsOf_simps [simp]:
  "rowsOf md schema_users = users md"
  "rowsOf md schema_courses = courses md"
  "rowsOf md schema_enrollments = enrollments md"
  "rowsOf md schema_assignments = assignments md"
  "rowsOf md schema_submissions = submissions md"
  "rowsOf md schema_grades = grades md"
  "rowsOf md schema_notifications = notifications md"
  by (simp_all add: rowsOf_def tableRows_def)

lemma selectFrom_sql:
  "selectFrom t (CObject None JUndefined None None None None chunks) None None w =
   (Inr (map copyRow (rowsOf (mockData w) t)), w)"
  by (simp add: selectFrom_def fromTable_def thenQ_def rowsOf_def)

lemma selectFrom_sql_limit1:
  "selectFrom t (CObject None JUndefined None None None None chunks) (Some 1) None w =
   (Inr (take 1 (map copyRow (rowsOf (mockData w) t))), w)"
  by (simp add: selectFrom_def fromTable_def thenQ_def rowsOf_def limitQ_def slice0_def)

lemma selectFrom_sql_desc:
  "selectFrom t (CObject None JUndefined None None None None chunks) None (Some (drizzle_desc c)) w =
   (Inr (map copyRow (rowsOf (mockData w) t)), w)"
  by (simp add: selectFrom_def fromTable_def thenQ_def rowsOf_def orderByQ_def drizzle_desc_def)

lemmas select_sql = selectFrom_sql selectFrom_sql_limit1 selectFrom_sql_desc
  drizzle_eq_def drizzle_and_def sqlObject_def chunksOf_def

lemma getCourse_eq: "getCourse cid w = (Inr (firstRow (map copyRow (courses (mockData w)))), w)"
  by (simp add: getCourse_def ioBind_def ioReturn_def select_sql)

lemma getUser_eq: "getUser uid w = (Inr (firstRow (map copyRow (users (mockData w)))), w)"
  by (simp add: getUser_def ioBind_def ioReturn_def select_sql)

lemma getAssignment_eq:
  "getAssignment aid w = (Inr (firstRow (map copyRow (assignments (mockData w)))), w)"
  by (simp add: getAssignment_def ioBind_def ioReturn_def select_sql)

lemma getSubmission_eq:
  "getSubmission sid w = (Inr (firstRow (map copyRow (submissions (mockData w)))), w)"
  by (simp add: getSubmission_def ioBind_def ioReturn_def select_sql)

lemma enrollmentCheck_eq:
  "enrollmentCheck cid uid w = (Inr (take 1 (map copyRow (enrollments (mockData w)))), w)"
  by (simp add: enrollmentCheck_def select_sql)

lemma getNotificationsByUser_eq:
  "getNotificationsByUser uid w = (Inr (map copyRow (notifications (mockData w))), w)"
  by (simp add: getNotificationsByUser_def select_sql)

text \<open>
  For comparison, the conditions the parser does read. An object with \<^verbatim>\<open>column\<close> and
  \<^verbatim>\<open>value\<close> is an exact comparison, and a composite of type \<^verbatim>\<open>and\<close> over two of them an
  exact conjunction; an SQL text with two comparisons joined by \<^verbatim>\<open>and\<close> reaches the
  equality case first and is decided by its first comparison alone, on the column's name
  in lower case.
\<close>

lemma parse_column_value:
  "col \<noteq> [] \<Longrightarrow> v \<noteq> JUndefined \<Longrightarrow>
   parseCondition (CObject (Some col) v sq ps ty cs ch) r = Some (strictEq (getProp r col) v)"
  by simp

lemma parse_and_of_columns:
  "a \<noteq> [] \<Longrightarrow> b \<noteq> [] \<Longrightarrow> x \<noteq> JUndefined \<Longrightarrow> y \<noteq> JUndefined \<Longrightarrow>
   parseCondition
     (CObject None JUndefined None None (Some ''and'')
        (Some [CObject (Some a) x None None None None None,
               CObject (Some b) y None None None None None]) None) r =
   Some (strictEq (getProp r a) x \<and> strictEq (getProp r b) y)"
  by (cases "strictEq (getProp r a) x"; cases "strictEq (getProp r b) y") simp_all

lemma filterRows_exact:
  "(\<And>r. parseCondition c r = Some (P r)) \<Longrightarrow> filterRows c rs = Some (filter P rs)"
  by (induction rs) simp_all

lemma parse_sql_conjunction:
  "parseCondition
     (CObject None JUndefined
        (Some ''\"enrollments\".\"course_id\" = $1 and \"enrollments\".\"student_id\" = $2'')
        (Some [c, s]) None None None) r =
   Some (strictEq (getProp r ''course_id'') c)"
  by (simp add: parseSql.simps toLowerCase_def lowerChar_def split_def trim_def isSpace_def
      stripQuotes_def popDot_def)

lemma jsonCopy_rows: "jsonCopy (JArr (map JObj rs)) = JArr (map (\<lambda>r. JObj (copyRow r)) rs)"
  by (simp add: copyRow_def)

lemma db_insert_notifications:
  "db_insert schema_notifications values w =
     (Inr (newRecord ''notifications'' values (randomIds w 0) (clock w 0)),
      w\<lparr>clock := (\<lambda>n. clock w (Suc n)), randomIds := (\<lambda>n. randomIds w (Suc n)),
        mockData := (mockData w)\<lparr>notifications := notifications (mockData w) @
           [newRecord ''notifications'' values (randomIds w 0) (clock w 0)]\<rparr>\<rparr>)"
  by (simp add: db_insert_def ioBind_def nowISOString_def generateId_def tableRows_def
      setTableRows_def Let_def)

section \<open>Notifications without a live connection\<close>

text \<open>
  C6. When a user has no registered connection, or the registered connection is not open,
  announcing an event to that user still appends the notification to the store, with
  \<^verbatim>\<open>isRead\<close> false, and changes nothing else of the store and nothing of the registry;
  the notification listing the user asks for next answers 200 with a list that holds that
  notification, and itself changes neither store nor registry.
\<close>

theorem notification_durable:
  assumes "u \<noteq> []"
    and "case clients w (JStr u) of None \<Rightarrow> True | Some c \<Rightarrow> readyState c \<noteq> 1"
  shows "case notify (JStr u) ty content w of
           (r, w') \<Rightarrow>
             r = Inr () \<and>
             clients w' = clients w \<and>
             mockData w' = (mockData w)\<lparr>notifications := notifications (mockData w) @
               [[(''userId'', JStr u), (''type'', JStr ty), (''content'', JStr content),
                 (''isRead'', JBool False), (''id'', JStr (randomIds w 0)),
                 (''createdAt'', JStr (clock w 0))]]\<rparr> \<and>
             (case get_api_notifications w' \<lparr>userId = Some u, userRole = role\<rparr> of
                (resp, w'') \<Rightarrow>
                  status resp = 200 \<and>
                  (\<exists>listed. body resp = Json (JArr listed) \<and>
                     JObj [(''userId'', JStr u), (''type'', JStr ty), (''content'', JStr content),
                           (''isRead'', JBool False), (''id'', JStr (randomIds w 0)),
                           (''createdAt'', JStr (clock w 0))] \<in> set listed) \<and>
                  mockData w'' = mockData w' \<and> clients w'' = clients w')"
proof -
  let ?n = "[(''userId'', JStr u), (''type'', JStr ty), (''content'', JStr content),
             (''isRead'', JBool False), (''id'', JStr (randomIds w 0)),
             (''createdAt'', JStr (clock w 0))]"
  have rec: "newRecord ''notifications''
               [(''userId'', JStr u), (''type'', JStr ty), (''content'', JStr content),
                (''isRead'', JBool False)] (randomIds w 0) (clock w 0) = ?n"
    by (simp add: newRecord_def getProp_def truthy_def)
  have copy: "copyRow (copyRow ?n) = ?n"
    by (simp add: copyRow_def)
  have auth: "requireAuth \<lparr>userId = Some u, userRole = role\<rparr>"
    using assms(1) by (simp add: requireAuth_def sessionUserId_def truthy_def)
  define w1 where "w1 = w\<lparr>clock := (\<lambda>n. clock w (Suc n)), randomIds := (\<lambda>n. randomIds w (Suc n)),
        mockData := (mockData w)\<lparr>notifications := notifications (mockData w) @ [?n]\<rparr>\<rparr>"
  have step: "notify (JStr u) ty content w = (Inr (), w1)"
    using assms(2)
    by (simp add: notify_def createNotification_def db_insert_notifications rec ioBind_def
        broadcastNotification_def w1_def split: option.splits)
  have listing: "get_api_notifications w1 \<lparr>userId = Some u, userRole = role\<rparr> =
      (respond 200 (Json (JArr (map (\<lambda>r. JObj (copyRow (copyRow r)))
         (notifications (mockData w) @ [?n])))), w1)"
    using auth
    by (simp add: get_api_notifications_def getNotificationsByUser_eq handle_def ioBind_def
        ioReturn_def json_def jsonCopy_rows w1_def comp_def del: jsonCopy.simps)
  have mem: "JObj ?n \<in> set (map (\<lambda>r. JObj (copyRow (copyRow r)))
                              (notifications (mockData w) @ [?n]))"
    using copy by (simp del: jsonCopy.simps)
  have md: "mockData w1 = (mockData w)\<lparr>notifications := notifications (mockData w) @ [?n]\<rparr>"
    and cl: "clients w1 = clients w"
    by (simp_all add: w1_def)
  show ?thesis
    using mem by (simp add: step listing md cl respond_def del: jsonCopy.simps set_map set_append)
qed

theorem notification_durable_witness:
  "''s1'' \<noteq> []
   \<and> (case clients (serverWith emptyStore) (JStr ''s1'') of
         None \<Rightarrow> True
       | Some c \<Rightarrow> readyState c \<noteq> 1)
   \<and> (case notify (JStr ''s1'') ''Enrollment'' ''You've been enrolled in Algebra''
              (serverWith emptyStore) of
         (r, w') \<Rightarrow>
           r = Inr () \<and>
           clients w' = clients (serverWith emptyStore) \<and>
           mockData w' = (mockData (serverWith emptyStore))\<lparr>notifications :=
             notifications (mockData (serverWith emptyStore)) @
             [[(''userId'', JStr ''s1''), (''type'', JStr ''Enrollment''),
               (''content'', JStr ''You've been enrolled in Algebra''),
               (''isRead'', JBool False), (''id'', JStr (randomIds (serverWith emptyStore) 0)),
               (''createdAt'', JStr (clock (serverWith emptyStore) 0))]]\<rparr> \<and>
           (case get_api_notifications w' \<lparr>userId = Some ''s1'', userRole = Some ''student''\<rparr> of
              (resp, w'') \<Rightarrow>
                status resp = 200 \<and>
                (\<exists>listed. body resp = Json (JArr listed) \<and>
                   JObj [(''userId'', JStr ''s1''), (''type'', JStr ''Enrollment''),
                         (''content'', JStr ''You've been enrolled in Algebra''),
                         (''isRead'', JBool False),
                         (''id'', JStr (randomIds (serverWith emptyStore) 0)),
                         (''createdAt'', JStr (clock (serverWith emptyStore) 0))] \<in> set listed) \<and>
                mockData w'' = mockData w' \<and> clients w'' = clients w'))"
proof -
  have h1: "''s1'' \<noteq> []" by simp
  have h2: "case clients (serverWith emptyStore) (JStr ''s1'') of
              None \<Rightarrow> True
            | Some c \<Rightarrow> readyState c \<noteq> 1"
    by (simp add: serverWith_def)
  show ?thesis
    using h1 h2
      notification_durable[OF h1 h2, of "''Enrollment''" "''You've been enrolled in Algebra''"
        "Some ''student''"]
    by blast
qed

section \<open>Grades\<close>






lemma uuid_example: "uuidShape ''123e4567-e89b-42d3-a456-426614174000''"
  by (simp add: uuidShape_def split_def isHexDigit_def)




section \<open>Selects change no record\<close>

lemma extends_refl: "n \<le> fresh h \<Longrightarrow> extends n h h"
  by (simp add: extends_def)

lemma extends_trans: "extends n h h1 \<Longrightarrow> extends n h1 h2 \<Longrightarrow> extends n h h2"
  by (auto simp: extends_def)

lemma alloc_extends: "n \<le> fresh h \<Longrightarrow> alloc c h = (a, h') \<Longrightarrow> extends n h h' \<and> n \<le> a"
  by (auto simp: alloc_def extends_def)

lemma write_extends: "n \<le> fresh h \<Longrightarrow> n \<le> a \<Longrightarrow> extends n h (writeCell a c h)"
  by (auto simp: writeCell_def extends_def)

lemma allocAll_extends: "n \<le> fresh h \<Longrightarrow> allocAll rs h = (res, h') \<Longrightarrow> extends n h h'"
proof (induction rs arbitrary: h res h')
  case Nil
  then show ?case by (simp add: extends_refl)
next
  case (Cons r rs)
  obtain a h1 where a: "alloc (ObjCell r) h = (a, h1)" by (cases "alloc (ObjCell r) h")
  obtain rest h2 where r: "allocAll rs h1 = (rest, h2)" by (cases "allocAll rs h1")
  from alloc_extends[OF Cons.prems(1) a] have e1: "extends n h h1" by simp
  then have "n \<le> fresh h1" by (simp add: extends_def)
  from Cons.IH[OF this r] have "extends n h1 h2" .
  with e1 Cons.prems(2) a r show ?case by (auto intro: extends_trans)
qed

lemma extends_fresh: "extends n h h' \<Longrightarrow> n \<le> fresh h'"
  by (simp add: extends_def)

lemma h_from_extends:
  assumes "n \<le> fresh h" and "h_from st fieldSpec t h = (q, h')"
  shows "extends n h h'"
proof -
  obtain copies h1 where c: "allocAll (map (\<lambda>a. copyRow (readObj h a))
      (tableArray st h (getTableName t))) h = (copies, h1)"
    by (cases "allocAll (map (\<lambda>a. copyRow (readObj h a)) (tableArray st h (getTableName t))) h")
  obtain d h2 where d: "alloc (ArrCell copies) h1 = (d, h2)"
    by (cases "alloc (ArrCell copies) h1")
  from allocAll_extends[OF assms(1) c] have e1: "extends n h h1" .
  from alloc_extends[OF extends_fresh[OF e1] d] have e2: "extends n h1 h2" by simp
  from assms(2) c d have "h' = h2" by (simp add: h_from_def)
  with e1 e2 show ?thesis by (auto intro: extends_trans)
qed

lemma h_where_extends:
  assumes "n \<le> fresh h" and "h_where c q h = (r, h')"
  shows "extends n h h'"
  using assms
  by (auto simp: h_where_def extends_refl alloc_def extends_def
      split: cond.splits option.splits prod.splits)

lemma h_joinOne_extends:
  assumes "n \<le> fresh h" and "h_joinOne rd name left h = (r, h')"
  shows "extends n h h'"
  using assms
  by (auto simp: h_joinOne_def alloc_def writeCell_def extends_def split: prod.splits)

lemma h_mapJoin_extends:
  "n \<le> fresh h \<Longrightarrow> h_mapJoin rd name ls h = (rs, h') \<Longrightarrow> extends n h h'"
proof (induction ls arbitrary: h rs h')
  case Nil
  then show ?case by (simp add: extends_refl)
next
  case (Cons a ls)
  obtain r h1 where a: "h_joinOne rd name a h = (r, h1)" by (cases "h_joinOne rd name a h")
  obtain rest h2 where r: "h_mapJoin rd name ls h1 = (rest, h2)" by (cases "h_mapJoin rd name ls h1")
  from h_joinOne_extends[OF Cons.prems(1) a] have e1: "extends n h h1" .
  from Cons.IH[OF extends_fresh[OF e1] r] have "extends n h1 h2" .
  with e1 Cons.prems(2) a r show ?case by (auto intro: extends_trans)
qed

lemma h_performJoin_extends:
  assumes "n \<le> fresh h" and "h_performJoin st l name h = (r, h')"
  shows "extends n h h' \<and> n \<le> r"
proof -
  let ?rd = "map (readObj h) (tableArray st h name)"
  obtain joined h1 where j: "h_mapJoin ?rd name (readArr h l) h = (joined, h1)"
    by (cases "h_mapJoin ?rd name (readArr h l) h")
  from h_mapJoin_extends[OF assms(1) j] have e1: "extends n h h1" .
  from assms(2) j have a: "alloc (ArrCell joined) h1 = (r, h')"
    by (simp add: h_performJoin_def)
  from alloc_extends[OF extends_fresh[OF e1] a] e1 show ?thesis
    by (auto intro: extends_trans)
qed

lemma h_joins_loop_extends:
  "n \<le> fresh h \<Longrightarrow> n \<le> r0 \<Longrightarrow> h_joins_loop st js r0 h = (r, h') \<Longrightarrow> extends n h h' \<and> n \<le> r"
proof (induction js arbitrary: h r0 r h')
  case Nil
  then show ?case by (simp add: extends_refl)
next
  case (Cons j js)
  obtain name c where j: "j = (name, c)" by (cases j)
  obtain r1 h1 where p: "h_performJoin st r0 name h = (r1, h1)"
    by (cases "h_performJoin st r0 name h")
  from h_performJoin_extends[OF Cons.prems(1) p] have e1: "extends n h h1" and r1: "n \<le> r1"
    by simp_all
  from Cons.prems(3) j p have "h_joins_loop st js r1 h1 = (r, h')" by simp
  from Cons.IH[OF extends_fresh[OF e1] r1 this] e1 show ?case
    by (auto intro: extends_trans)
qed

lemma h_then_extends:
  assumes "n \<le> fresh h" and "h_then co st q h = (r, h')"
  shows "extends n h h'"
proof -
  obtain r0 h0 where a0: "alloc (ArrCell (readArr h (h_data q))) h = (r0, h0)"
    by (cases "alloc (ArrCell (readArr h (h_data q))) h")
  obtain r1 h1 where j: "h_joins_loop st (h_joins q) r0 h0 = (r1, h1)"
    by (cases "h_joins_loop st (h_joins q) r0 h0")
  let ?h2 = "(if h_orderByFields q \<noteq> []
                then writeCell r1 (ArrCell (sortBy (\<lambda>a b. compareRows co (h_orderByFields q)
                                                        (readObj h1 a) (readObj h1 b))
                                              (readArr h1 r1))) h1
                else h1)"
  obtain r3 h3 where l: "(case h_limitCount q of
                        Some n \<Rightarrow> if n \<noteq> 0 then alloc (ArrCell (slice0 n (readArr ?h2 r1))) ?h2
                                  else (r1, ?h2)
                      | None \<Rightarrow> (r1, ?h2)) = (r3, h3)"
    by (cases "(case h_limitCount q of
                        Some n \<Rightarrow> if n \<noteq> 0 then alloc (ArrCell (slice0 n (readArr ?h2 r1))) ?h2
                                  else (r1, ?h2)
                      | None \<Rightarrow> (r1, ?h2))")
  from alloc_extends[OF assms(1) a0] have e0: "extends n h h0" and r0: "n \<le> r0" by simp_all
  from h_joins_loop_extends[OF extends_fresh[OF e0] r0 j] have e1: "extends n h0 h1" and r1: "n \<le> r1"
    by simp_all
  have e2: "extends n h1 ?h2"
    using write_extends[OF extends_fresh[OF e1] r1] extends_refl[OF extends_fresh[OF e1]]
    by simp
  have e3: "extends n ?h2 h3"
  proof (cases "h_limitCount q")
    case None
    with l have "h3 = ?h2" by simp
    then show ?thesis using extends_refl[OF extends_fresh[OF e2]] by simp
  next
    case (Some k)
    show ?thesis
    proof (cases "k = 0")
      case True
      with Some l have "h3 = ?h2" by simp
      then show ?thesis using extends_refl[OF extends_fresh[OF e2]] by simp
    next
      case False
      with Some l have "alloc (ArrCell (slice0 k (readArr ?h2 r1))) ?h2 = (r3, h3)" by simp
      from alloc_extends[OF extends_fresh[OF e2] this] show ?thesis by simp
    qed
  qed
  have e03: "extends n h h3"
    using e0 e1 e2 e3 by (blast intro: extends_trans)
  have unfold: "h_then co st q h =
      (case h_selectedFields q of
           Some fieldSpec \<Rightarrow>
             (let (sel, h4) = allocAll (map (\<lambda>a. selectRecord fieldSpec (readObj h3 a)) (readArr h3 r3)) h3
              in alloc (ArrCell sel) h4)
         | None \<Rightarrow> (r3, h3))"
    unfolding h_then_def a0 using j l by (simp add: Let_def)
  show ?thesis
  proof (cases "h_selectedFields q")
    case None
    with assms(2) unfold have "h' = h3" by simp
    with e03 show ?thesis by simp
  next
    case (Some fieldSpec)
    obtain sel h4 where s: "allocAll (map (\<lambda>a. selectRecord fieldSpec (readObj h3 a)) (readArr h3 r3)) h3 = (sel, h4)"
      by (cases "allocAll (map (\<lambda>a. selectRecord fieldSpec (readObj h3 a)) (readArr h3 r3)) h3")
    from allocAll_extends[OF extends_fresh[OF e03] s] have e4: "extends n h3 h4" .
    from assms(2) unfold Some s have "alloc (ArrCell sel) h4 = (r, h')" by simp
    from alloc_extends[OF extends_fresh[OF e4] this] e03 e4 show ?thesis
      by (blast intro: extends_trans)
  qed
qed

lemma h_steps_extends:
  "n \<le> fresh h \<Longrightarrow> h_steps ss q h = (r, h') \<Longrightarrow> extends n h h'"
proof (induction ss q h arbitrary: r h' rule: h_steps.induct)
  case (1 q h)
  then show ?case by (simp add: extends_refl)
next
  case (2 c ss q h)
  obtain r1 h1 where w: "h_where c q h = (r1, h1)" by (cases "h_where c q h")
  from h_where_extends[OF "2.prems"(1) w] have e1: "extends n h h1" .
  show ?case
  proof (cases r1)
    case None
    with "2.prems"(2) w e1 show ?thesis by simp
  next
    case (Some q1)
    with "2.prems"(2) w have "h_steps ss q1 h1 = (r, h')" by simp
    from "2.IH"[OF w[symmetric, unfolded Some] refl extends_fresh[OF e1] this] e1
    show ?thesis by (blast intro: extends_trans)
  qed
next
  case (3 t c ss q h)
  then show ?case by simp
next
  case (4 field dir ss q h)
  then show ?case by simp
next
  case (5 n ss q h)
  then show ?case by simp
qed

lemma h_select_extends: "extends (fresh h) h (snd (h_select co st fieldSpec t ss h))"
proof -
  obtain q h1 where f: "h_from st fieldSpec t h = (q, h1)" by (cases "h_from st fieldSpec t h")
  obtain r h2 where s: "h_steps ss q h1 = (r, h2)" by (cases "h_steps ss q h1")
  from h_from_extends[OF order_refl f] have e1: "extends (fresh h) h h1" .
  from h_steps_extends[OF extends_fresh[OF e1] s] have e2: "extends (fresh h) h1 h2" .
  show ?thesis
  proof (cases r)
    case None
    with f s e1 e2 show ?thesis by (auto simp: h_select_def intro: extends_trans)
  next
    case (Some q2)
    obtain res h3 where t: "h_then co st q2 h2 = (res, h3)" by (cases "h_then co st q2 h2")
    from h_then_extends[OF extends_fresh[OF e2] t] have "extends (fresh h) h2 h3" .
    with f s Some t e1 e2 show ?thesis by (auto simp: h_select_def intro: extends_trans)
  qed
qed


lemma extends_readObj: "extends n h h' \<Longrightarrow> a < n \<Longrightarrow> readObj h' a = readObj h a"
  by (simp add: extends_def readObj_def)

lemma extends_readArr: "extends n h h' \<Longrightarrow> a < n \<Longrightarrow> readArr h' a = readArr h a"
  by (simp add: extends_def readArr_def)

lemma extends_hview:
  assumes "extends (fresh h) h h'" and "below h a"
  shows "hview h' a = hview h a \<and> below h' a"
proof -
  have lt: "a < fresh h" and elems: "\<forall>x \<in> set (readArr h a). x < fresh h"
    using assms(2) by (simp_all add: below_def)
  have ra: "readArr h' a = readArr h a"
    using extends_readArr[OF assms(1) lt] .
  have "map (readObj h') (readArr h a) = map (readObj h) (readArr h a)"
    using elems extends_readObj[OF assms(1)] by (intro map_cong) auto
  moreover have "fresh h \<le> fresh h'"
    using assms(1) by (simp add: extends_def)
  ultimately show ?thesis
    using ra lt elems by (auto simp: hview_def below_def)
qed

lemma agrees_extends: "agrees st h md \<Longrightarrow> extends (fresh h) h h' \<Longrightarrow> agrees st h' md"
  unfolding agrees_def
  by (metis (no_types, lifting) extends_hview map_option_cong)

lemma agrees_rows:
  "agrees st h md \<Longrightarrow>
   map (readObj h) (tableArray st h name) = (case tableRows md name of Some rs \<Rightarrow> rs | None \<Rightarrow> [])"
  by (auto simp: agrees_def tableArray_def hview_def split: option.splits)

lemma alloc_facts:
  "alloc c h = (a, h') \<Longrightarrow>
   a = fresh h \<and> fresh h' = Suc (fresh h) \<and> cells h' a = Some c \<and> extends (fresh h) h h'"
  by (auto simp: alloc_def extends_def)

lemma allocAll_facts:
  "allocAll rs h = (res, h') \<Longrightarrow>
   map (readObj h') res = rs \<and> (\<forall>x \<in> set res. x < fresh h') \<and> extends (fresh h) h h'"
proof (induction rs arbitrary: h res h')
  case Nil
  then show ?case by (simp add: extends_refl)
next
  case (Cons r rs)
  obtain a h1 where a: "alloc (ObjCell r) h = (a, h1)" by (cases "alloc (ObjCell r) h")
  obtain rest h2 where r: "allocAll rs h1 = (rest, h2)" by (cases "allocAll rs h1")
  have fa: "a = fresh h" "fresh h1 = Suc (fresh h)"
    "cells h1 a = Some (ObjCell r)" "extends (fresh h) h h1"
    using alloc_facts[OF a] by blast+
  have ih: "map (readObj h2) rest = rs" "\<forall>x \<in> set rest. x < fresh h2"
    "extends (fresh h1) h1 h2"
    using Cons.IH[OF r] by blast+
  have "readObj h2 a = readObj h1 a"
    using extends_readObj[OF ih(3)] fa by simp
  then have ra: "readObj h2 a = r" using fa(3) by (simp add: readObj_def)
  have lt: "a < fresh h2" using ih(3) fa by (simp add: extends_def)
  have ext: "extends (fresh h) h h2"
    using fa(4) ih(3) fa(2) by (auto simp: extends_def)
  from Cons.prems a r have "res = a # rest" "h' = h2" by simp_all
  with ra ih lt ext show ?case by simp
qed

lemma extends_chain: "extends (fresh h) h h1 \<Longrightarrow> extends (fresh h1) h1 h2 \<Longrightarrow> extends (fresh h) h h2"
  by (auto simp: extends_def)

lemma alloc_array:
  assumes "alloc (ArrCell xs) h = (d, h')" and "\<forall>x \<in> set xs. x < fresh h"
  shows "below h' d \<and> hview h' d = map (readObj h) xs \<and> extends (fresh h) h h'"
proof -
  have fa: "d = fresh h" "fresh h' = Suc (fresh h)" "cells h' d = Some (ArrCell xs)"
    "extends (fresh h) h h'"
    using alloc_facts[OF assms(1)] by blast+
  have ra: "readArr h' d = xs"
    using fa(3) by (simp add: readArr_def)
  have "map (readObj h') xs = map (readObj h) xs"
    using assms(2) extends_readObj[OF fa(4)] by (intro map_cong) auto
  then show ?thesis
    using fa ra assms(2) by (auto simp: below_def hview_def)
qed

lemma h_from_refines:
  assumes "agrees st h md" and "h_from st fieldSpec t h = (q, h')"
  shows "qrel q h' (fromTable md fieldSpec t) \<and> extends (fresh h) h h'"
proof -
  let ?rows = "map (\<lambda>a. copyRow (readObj h a)) (tableArray st h (getTableName t))"
  obtain copies h1 where c: "allocAll ?rows h = (copies, h1)" by (cases "allocAll ?rows h")
  obtain d h2 where d: "alloc (ArrCell copies) h1 = (d, h2)" by (cases "alloc (ArrCell copies) h1")
  have fc: "map (readObj h1) copies = ?rows" "\<forall>x \<in> set copies. x < fresh h1"
    "extends (fresh h) h h1"
    using allocAll_facts[OF c] by blast+
  have fd: "below h2 d" "hview h2 d = map (readObj h1) copies" "extends (fresh h1) h1 h2"
    using alloc_array[OF d fc(2)] by blast+
  have rows: "?rows = map copyRow (case tableRows md (getTableName t) of Some rs \<Rightarrow> rs | None \<Rightarrow> [])"
  proof -
    have "?rows = map copyRow (map (readObj h) (tableArray st h (getTableName t)))"
      by (simp add: comp_def)
    then show ?thesis
      using agrees_rows[OF assms(1), of "getTableName t"] by simp
  qed
  have q: "q = \<lparr>h_tableName = getTableName t, h_data = d, h_selectedFields = fieldSpec, h_joins = [],
           h_whereConditions = [], h_limitCount = None, h_orderByFields = []\<rparr>" and h': "h' = h2"
    using assms(2) c d by (simp_all add: h_from_def)
  show ?thesis
    using fd fc rows extends_chain[OF fc(3) fd(3)]
    by (simp add: q h' qrel_def fromTable_def)
qed

lemma h_filter_refines:
  "map_option (map (readObj h)) (h_filter c h xs) = filterRows c (map (readObj h) xs)
   \<and> (\<forall>kept. h_filter c h xs = Some kept \<longrightarrow> set kept \<subseteq> set xs)"
  by (induction xs) (auto split: option.splits)

lemma h_where_refines:
  assumes "qrel q h vq" and "h_where c q h = (r, h')"
  shows "extends (fresh h) h h' \<and>
         (case r of
            None \<Rightarrow> whereQ c vq = None
          | Some q1 \<Rightarrow> (\<exists>vq1. whereQ c vq = Some vq1 \<and> qrel q1 h' vq1))"
proof (cases "case c of CFalsy \<Rightarrow> True | _ \<Rightarrow> False")
  case True
  then have c: "c = CFalsy" by (cases c) simp_all
  with assms show ?thesis
    by (auto simp: h_where_def whereQ_def extends_refl)
next
  case False
  let ?xs = "readArr h (h_data q)"
  have rel: "map_option (map (readObj h)) (h_filter c h ?xs) = filterRows c (data vq)"
    using h_filter_refines[of h c ?xs] assms(1) by (simp add: qrel_def hview_def)
  show ?thesis
  proof (cases "h_filter c h ?xs")
    case None
    with rel have "filterRows c (data vq) = None" by simp
    with None False assms(2) show ?thesis
      by (cases c) (simp_all add: h_where_def whereQ_def extends_refl)
  next
    case (Some kept)
    with rel have fr: "filterRows c (data vq) = Some (map (readObj h) kept)" by simp
    have sub: "set kept \<subseteq> set ?xs"
      using h_filter_refines[of h c ?xs] Some by blast
    have lt: "\<forall>x \<in> set kept. x < fresh h"
      using sub assms(1) by (auto simp: qrel_def below_def)
    obtain d h1 where d: "alloc (ArrCell kept) h = (d, h1)" by (cases "alloc (ArrCell kept) h")
    have fd: "below h1 d" "hview h1 d = map (readObj h) kept" "extends (fresh h) h h1"
      using alloc_array[OF d lt] by blast+
    have res: "r = Some (q\<lparr>h_whereConditions := h_whereConditions q @ [c], h_data := d\<rparr>)" "h' = h1"
      using Some False assms(2) d by (cases c; simp add: h_where_def)+
    have vq: "whereQ c vq = Some (vq\<lparr>whereConditions := whereConditions vq @ [c],
                                     data := map (readObj h) kept\<rparr>)"
      using False fr by (cases c) (simp_all add: whereQ_def)
    show ?thesis
      using fd assms(1) by (simp add: res vq qrel_def)
  qed
qed

lemma h_steps_refines:
  "qrel q h vq \<Longrightarrow> h_steps ss q h = (r, h') \<Longrightarrow>
   extends (fresh h) h h' \<and>
   (case r of
      None \<Rightarrow> v_steps ss vq = None
    | Some q1 \<Rightarrow> (\<exists>vq1. v_steps ss vq = Some vq1 \<and> qrel q1 h' vq1))"
proof (induction ss q h arbitrary: vq r h' rule: h_steps.induct)
  case (1 q h)
  then show ?case by (auto simp: extends_refl)
next
  case (2 c ss q h)
  obtain r1 h1 where w: "h_where c q h = (r1, h1)" by (cases "h_where c q h")
  note wr = h_where_refines[OF "2.prems"(1) w]
  show ?case
  proof (cases r1)
    case None
    with "2.prems"(2) w wr show ?thesis by simp
  next
    case (Some q1)
    with wr obtain vq1 where vq1: "whereQ c vq = Some vq1" "qrel q1 h1 vq1" by auto
    from "2.prems"(2) w Some have s: "h_steps ss q1 h1 = (r, h')" by simp
    from "2.IH"[OF w[symmetric, unfolded Some] refl vq1(2) s] wr vq1
    show ?thesis by (auto intro: extends_chain split: option.splits)
  qed
next
  case (3 t c ss q h)
  have "qrel (q\<lparr>h_joins := h_joins q @ [(getTableName t, c)]\<rparr>) h (leftJoinQ t c vq)"
    using "3.prems"(1) by (simp add: qrel_def leftJoinQ_def)
  from "3.IH"[OF this] "3.prems"(2) show ?case by (auto split: option.splits)
next
  case (4 field dir ss q h)
  have "qrel (q\<lparr>h_orderByFields := h_orderByFields q @
        [(case field of PObject (Some n) \<Rightarrow> if n \<noteq> [] then PString n else field | _ \<Rightarrow> field, dir)]\<rparr>)
        h (orderByQ field dir vq)"
    using "4.prems"(1) by (simp add: qrel_def orderByQ_def)
  from "4.IH"[OF this] "4.prems"(2) show ?case by (auto split: option.splits)
next
  case (5 n ss q h)
  have "qrel (q\<lparr>h_limitCount := Some n\<rparr>) h (limitQ n vq)"
    using "5.prems"(1) by (simp add: qrel_def limitQ_def)
  from "5.IH"[OF this] "5.prems"(2) show ?case by (auto split: option.splits)
qed

lemma h_joinOne_facts:
  assumes "h_joinOne rd name left h = (r, h')"
  shows "r = fresh h \<and> fresh h' = Suc (fresh h) \<and>
         readObj h' r = joinRecord rd name (readObj h left) \<and> extends (fresh h) h h'"
  using assms
  by (auto simp: h_joinOne_def alloc_def writeCell_def readObj_def extends_def split: prod.splits)

lemma h_mapJoin_facts:
  "\<forall>x \<in> set ls. x < fresh h \<Longrightarrow> h_mapJoin rd name ls h = (rs, h') \<Longrightarrow>
   map (readObj h') rs = map (\<lambda>l. joinRecord rd name (readObj h l)) ls \<and>
   (\<forall>x \<in> set rs. x < fresh h') \<and> extends (fresh h) h h'"
proof (induction ls arbitrary: h rs h')
  case Nil
  then show ?case by (simp add: extends_refl)
next
  case (Cons a ls)
  obtain r h1 where a: "h_joinOne rd name a h = (r, h1)" by (cases "h_joinOne rd name a h")
  obtain rest h2 where m: "h_mapJoin rd name ls h1 = (rest, h2)" by (cases "h_mapJoin rd name ls h1")
  have fa: "r = fresh h" "fresh h1 = Suc (fresh h)"
    "readObj h1 r = joinRecord rd name (readObj h a)" "extends (fresh h) h h1"
    using h_joinOne_facts[OF a] by blast+
  have lt1: "\<forall>x \<in> set ls. x < fresh h1"
    using Cons.prems(1) fa(2) by auto
  have ih: "map (readObj h2) rest = map (\<lambda>l. joinRecord rd name (readObj h1 l)) ls"
    "\<forall>x \<in> set rest. x < fresh h2" "extends (fresh h1) h1 h2"
    using Cons.IH[OF lt1 m] by blast+
  have same: "map (\<lambda>l. joinRecord rd name (readObj h1 l)) ls =
              map (\<lambda>l. joinRecord rd name (readObj h l)) ls"
    using Cons.prems(1) extends_readObj[OF fa(4)] by (intro map_cong) auto
  have "readObj h2 r = readObj h1 r"
    using extends_readObj[OF ih(3), of r] fa by simp
  moreover have "r < fresh h2"
    using ih(3) fa by (simp add: extends_def)
  moreover have "rs = r # rest" "h' = h2"
    using Cons.prems(2) a m by simp_all
  ultimately show ?case
    using fa ih same extends_chain[OF fa(4) ih(3)] by simp
qed

lemma h_performJoin_refines:
  assumes "agrees st h md" and "below h l" and "h_performJoin st l name h = (r, h')"
  shows "below h' r \<and> hview h' r = performJoin md (hview h l) name \<and> extends (fresh h) h h'"
proof -
  let ?rd = "map (readObj h) (tableArray st h name)"
  obtain joined h1 where j: "h_mapJoin ?rd name (readArr h l) h = (joined, h1)"
    by (cases "h_mapJoin ?rd name (readArr h l) h")
  have lt: "\<forall>x \<in> set (readArr h l). x < fresh h"
    using assms(2) by (simp add: below_def)
  have fj: "map (readObj h1) joined = map (\<lambda>x. joinRecord ?rd name (readObj h x)) (readArr h l)"
    "\<forall>x \<in> set joined. x < fresh h1" "extends (fresh h) h h1"
    using h_mapJoin_facts[OF lt j] by blast+
  have a: "alloc (ArrCell joined) h1 = (r, h')"
    using assms(3) j by (simp add: h_performJoin_def)
  have fa: "below h' r" "hview h' r = map (readObj h1) joined" "extends (fresh h1) h1 h'"
    using alloc_array[OF a fj(2)] by blast+
  show ?thesis
    using fa fj extends_chain[OF fj(3) fa(3)] agrees_rows[OF assms(1), of name]
    by (simp add: performJoin_def hview_def comp_def)
qed

lemma h_joins_loop_refines:
  "agrees st h md \<Longrightarrow> below h r0 \<Longrightarrow> h_joins_loop st js r0 h = (r, h') \<Longrightarrow>
   below h' r \<and>
   hview h' r = fold (\<lambda>(name, c) result. performJoin md result name) js (hview h r0)"
proof (induction js arbitrary: h r0 r h')
  case Nil
  then show ?case by simp
next
  case (Cons j js)
  obtain name c where j: "j = (name, c)" by (cases j)
  obtain r1 h1 where p: "h_performJoin st r0 name h = (r1, h1)"
    by (cases "h_performJoin st r0 name h")
  have fp: "below h1 r1" "hview h1 r1 = performJoin md (hview h r0) name" "extends (fresh h) h h1"
    using h_performJoin_refines[OF Cons.prems(1,2) p] by blast+
  have ag: "agrees st h1 md"
    using agrees_extends[OF Cons.prems(1) fp(3)] .
  have "h_joins_loop st js r1 h1 = (r, h')"
    using Cons.prems(3) j p by simp
  from Cons.IH[OF ag fp(1) this] fp(2) show ?case
    by (simp add: j)
qed

lemma insertBy_map:
  "map f (insertBy (\<lambda>a b. cmp (f a) (f b)) x xs) = insertBy cmp (f x) (map f xs)"
  by (induction xs) simp_all

lemma sortBy_map: "map f (sortBy (\<lambda>a b. cmp (f a) (f b)) xs) = sortBy cmp (map f xs)"
  by (induction xs) (simp_all add: insertBy_map)

lemma set_insertBy: "set (insertBy cmp x xs) = insert x (set xs)"
  by (induction xs) auto

lemma set_sortBy: "set (sortBy cmp xs) = set xs"
  by (induction xs) (simp_all add: set_insertBy)

lemma sort_in_place:
  assumes "below h r"
  shows "below (writeCell r (ArrCell (sortBy (\<lambda>a b. cmp (readObj h a) (readObj h b)) (readArr h r))) h) r \<and>
         hview (writeCell r (ArrCell (sortBy (\<lambda>a b. cmp (readObj h a) (readObj h b)) (readArr h r))) h) r =
           sortBy cmp (hview h r)"
proof -
  let ?sorted = "sortBy (\<lambda>a b. cmp (readObj h a) (readObj h b)) (readArr h r)"
  let ?h2 = "writeCell r (ArrCell ?sorted) h"
  have ra: "readArr ?h2 r = ?sorted"
    by (simp add: writeCell_def readArr_def)
  have ro: "\<And>x. x \<in> set (readArr h r) \<Longrightarrow> readObj ?h2 x = readObj h x"
    by (auto simp: writeCell_def readObj_def readArr_def split: option.splits cell.splits)
  have "map (readObj ?h2) ?sorted = map (readObj h) ?sorted"
    using ro by (intro map_cong) (auto simp: set_sortBy)
  then have "hview ?h2 r = sortBy cmp (hview h r)"
    using ra by (simp add: hview_def sortBy_map)
  moreover have "below ?h2 r"
    using assms ra by (simp add: below_def set_sortBy) (simp add: writeCell_def)
  ultimately show ?thesis by simp
qed

lemma slice0_map: "map f (slice0 n xs) = slice0 n (map f xs)"
  by (simp add: slice0_def take_map)

lemma set_slice0: "set (slice0 n xs) \<subseteq> set xs"
  by (auto simp: slice0_def dest: in_set_takeD)

lemma h_then_refines:
  assumes "agrees st h md" and "qrel q h vq" and "h_then co st q h = (res, h')"
  shows "hview h' res = thenQ co md vq"
proof -
  have eqs: "h_selectedFields q = selectedFields vq" "h_joins q = joins vq"
    "h_limitCount q = limitCount vq" "h_orderByFields q = orderByFields vq"
    "hview h (h_data q) = data vq" "below h (h_data q)"
    using assms(2) by (simp_all add: qrel_def)
  obtain r0 h0 where a0: "alloc (ArrCell (readArr h (h_data q))) h = (r0, h0)"
    by (cases "alloc (ArrCell (readArr h (h_data q))) h")
  obtain r1 h1 where j: "h_joins_loop st (h_joins q) r0 h0 = (r1, h1)"
    by (cases "h_joins_loop st (h_joins q) r0 h0")
  let ?h2 = "(if h_orderByFields q \<noteq> []
                then writeCell r1 (ArrCell (sortBy (\<lambda>a b. compareRows co (h_orderByFields q)
                                                        (readObj h1 a) (readObj h1 b))
                                              (readArr h1 r1))) h1
                else h1)"
  obtain r3 h3 where l: "(case h_limitCount q of
                        Some n \<Rightarrow> if n \<noteq> 0 then alloc (ArrCell (slice0 n (readArr ?h2 r1))) ?h2
                                  else (r1, ?h2)
                      | None \<Rightarrow> (r1, ?h2)) = (r3, h3)"
    by (cases "(case h_limitCount q of
                        Some n \<Rightarrow> if n \<noteq> 0 then alloc (ArrCell (slice0 n (readArr ?h2 r1))) ?h2
                                  else (r1, ?h2)
                      | None \<Rightarrow> (r1, ?h2))")
  have lt0: "\<forall>x \<in> set (readArr h (h_data q)). x < fresh h"
    using eqs(6) by (simp add: below_def)
  have f0: "below h0 r0" "hview h0 r0 = data vq" "extends (fresh h) h h0"
    using alloc_array[OF a0 lt0] eqs(5) by (auto simp: hview_def)
  have ag0: "agrees st h0 md"
    using agrees_extends[OF assms(1) f0(3)] .
  let ?joined = "fold (\<lambda>(name, c) result. performJoin md result name) (joins vq) (data vq)"
  have f1: "below h1 r1" "hview h1 r1 = ?joined"
    using h_joins_loop_refines[OF ag0 f0(1) j] f0(2) eqs(2) by simp_all
  let ?ordered = "(if orderByFields vq \<noteq> [] then sortBy (compareRows co (orderByFields vq)) ?joined
                   else ?joined)"
  have f2: "below ?h2 r1" "hview ?h2 r1 = ?ordered"
    using sort_in_place[OF f1(1), of "compareRows co (h_orderByFields q)"] f1 eqs(4)
    by simp_all
  let ?limited = "(case limitCount vq of
                     Some n \<Rightarrow> if n \<noteq> 0 then slice0 n ?ordered else ?ordered
                   | None \<Rightarrow> ?ordered)"
  have f3: "below h3 r3 \<and> hview h3 r3 = ?limited"
  proof (cases "h_limitCount q")
    case None
    with l f2 eqs(3) show ?thesis by auto
  next
    case (Some k)
    show ?thesis
    proof (cases "k = 0")
      case True
      with Some l f2 eqs(3) show ?thesis by auto
    next
      case False
      with Some l have a: "alloc (ArrCell (slice0 k (readArr ?h2 r1))) ?h2 = (r3, h3)" by simp
      have lt: "\<forall>x \<in> set (slice0 k (readArr ?h2 r1)). x < fresh ?h2"
        using f2(1) set_slice0[of k "readArr ?h2 r1"] by (auto simp: below_def)
      have "below h3 r3" "hview h3 r3 = map (readObj ?h2) (slice0 k (readArr ?h2 r1))"
        using alloc_array[OF a lt] by blast+
      then show ?thesis
        using f2(2) Some False eqs(3) by (simp add: slice0_map hview_def)
    qed
  qed
  have unfold: "h_then co st q h =
      (case h_selectedFields q of
           Some fieldSpec \<Rightarrow>
             (let (sel, h4) = allocAll (map (\<lambda>a. selectRecord fieldSpec (readObj h3 a)) (readArr h3 r3)) h3
              in alloc (ArrCell sel) h4)
         | None \<Rightarrow> (r3, h3))"
    unfolding h_then_def a0 using j l by (simp add: Let_def)
  have vunfold: "thenQ co md vq =
      (case selectedFields vq of Some fieldSpec \<Rightarrow> map (selectRecord fieldSpec) ?limited
       | None \<Rightarrow> ?limited)"
    by (simp add: thenQ_def Let_def)
  show ?thesis
  proof (cases "h_selectedFields q")
    case None
    with assms(3) unfold have "res = r3" "h' = h3" by simp_all
    with f3 None eqs(1) show ?thesis by (simp add: vunfold)
  next
    case (Some fieldSpec)
    let ?rows = "map (\<lambda>a. selectRecord fieldSpec (readObj h3 a)) (readArr h3 r3)"
    obtain sel h4 where s: "allocAll ?rows h3 = (sel, h4)" by (cases "allocAll ?rows h3")
    have fs: "map (readObj h4) sel = ?rows" "\<forall>x \<in> set sel. x < fresh h4"
      using allocAll_facts[OF s] by blast+
    have a: "alloc (ArrCell sel) h4 = (res, h')"
      using assms(3) unfold Some s by simp
    have "hview h' res = map (readObj h4) sel"
      using alloc_array[OF a fs(2)] by blast
    moreover have "?rows = map (selectRecord fieldSpec) (hview h3 r3)"
      by (simp add: hview_def comp_def)
    ultimately show ?thesis
      using fs(1) f3 Some eqs(1) by (simp add: vunfold)
  qed
qed

text \<open>
  The select of the heap model resolves to the rows the select on values computes, so
  what the handlers read below is what the class with its shared objects returns.
\<close>

lemma h_select_refines:
  assumes "agrees st h md"
  shows "fst (h_select co st fieldSpec t ss h) = v_select co md fieldSpec t ss"
proof -
  obtain q h1 where f: "h_from st fieldSpec t h = (q, h1)" by (cases "h_from st fieldSpec t h")
  obtain r h2 where s: "h_steps ss q h1 = (r, h2)" by (cases "h_steps ss q h1")
  have ff: "qrel q h1 (fromTable md fieldSpec t)" "extends (fresh h) h h1"
    using h_from_refines[OF assms f] by blast+
  have ag1: "agrees st h1 md"
    using agrees_extends[OF assms ff(2)] .
  note sr = h_steps_refines[OF ff(1) s]
  show ?thesis
  proof (cases r)
    case None
    with sr f s show ?thesis by (simp add: h_select_def v_select_def)
  next
    case (Some q2)
    with sr obtain vq2 where v: "v_steps ss (fromTable md fieldSpec t) = Some vq2" "qrel q2 h2 vq2"
      by auto
    have ag2: "agrees st h2 md"
      using agrees_extends[OF ag1] sr by blast
    obtain res h3 where t: "h_then co st q2 h2 = (res, h3)" by (cases "h_then co st q2 h2")
    from h_then_refines[OF ag2 v(2) t] f s Some t v(1) show ?thesis
      by (simp add: h_select_def v_select_def hview_def)
  qed
qed


lemma selectFrom_as_select:
  "fst (selectFrom t c limitArg orderArg w) =
     (case v_select (coerce w) (mockData w) None t
             (Where c # (case orderArg of Some field \<Rightarrow> [OrderBy field Asc] | None \<Rightarrow> []) @
                        (case limitArg of Some n \<Rightarrow> [Limit n] | None \<Rightarrow> [])) of
        None \<Rightarrow> Inl TypeError
      | Some rs \<Rightarrow> Inr rs)"
  by (auto simp: selectFrom_def v_select_def split: option.splits)

text \<open>
  C9. A select query, whatever its table, field selection and sequence of \<^verbatim>\<open>where\<close>,
  \<^verbatim>\<open>leftJoin\<close>, \<^verbatim>\<open>orderBy\<close> and \<^verbatim>\<open>limit\<close> calls, and also when a condition makes the
  parser throw, leaves every cell below the address that was free before it as it was:
  it only allocates, and writes only what it allocated. The arrays of the store and the
  records they refer to are among these cells, and the query has no access to the
  binding of a table name to its array.
\<close>

theorem select_changes_no_cell:
  "fresh h \<le> fresh (snd (h_select co st fieldSpec t ss h))
   \<and> (\<forall>a. a < fresh h \<longrightarrow> cells (snd (h_select co st fieldSpec t ss h)) a = cells h a)"
  using h_select_extends[of h co st fieldSpec t ss] by (simp add: extends_def)

theorem select_changes_no_cell_witness:
  "(0::nat) < fresh exampleHeap \<and> (1::nat) < fresh exampleHeap \<and> (2::nat) < fresh exampleHeap
   \<and> cells (snd (h_select (\<lambda>a b. False) exampleTables
        (Some [(''who'', Direct (PString ''studentId''))]) schema_enrollments
        [Where (drizzle_eq enrollments_courseId (JStr ''c1'')), LeftJoin schema_users CFalsy,
         OrderBy (PString ''studentId'') Desc, Limit 1] exampleHeap)) 0 = cells exampleHeap 0
   \<and> cells (snd (h_select (\<lambda>a b. False) exampleTables
        (Some [(''who'', Direct (PString ''studentId''))]) schema_enrollments
        [Where (drizzle_eq enrollments_courseId (JStr ''c1'')), LeftJoin schema_users CFalsy,
         OrderBy (PString ''studentId'') Desc, Limit 1] exampleHeap)) 1 = cells exampleHeap 1
   \<and> cells (snd (h_select (\<lambda>a b. False) exampleTables
        (Some [(''who'', Direct (PString ''studentId''))]) schema_enrollments
        [Where (drizzle_eq enrollments_courseId (JStr ''c1'')), LeftJoin schema_users CFalsy,
         OrderBy (PString ''studentId'') Desc, Limit 1] exampleHeap)) 2 = cells exampleHeap 2"
proof -
  have f: "(0::nat) < fresh exampleHeap" "(1::nat) < fresh exampleHeap" "(2::nat) < fresh exampleHeap"
    by (simp_all add: exampleHeap_def)
  show ?thesis
    using f select_changes_no_cell[of exampleHeap "\<lambda>a b. False" exampleTables
        "Some [(''who'', Direct (PString ''studentId''))]" schema_enrollments
        "[Where (drizzle_eq enrollments_courseId (JStr ''c1'')), LeftJoin schema_users CFalsy,
          OrderBy (PString ''studentId'') Desc, Limit 1]"]
    by blast
qed

section \<open>Evaluations on a store with several rows\<close>

lemmas eval_defs =
  requireAuth_def requireRole_def teacherSession_def studentSession_def sessionUserId_def
  truthy_def serverWith_def campusStore_def gradingStore_def emptyStore_def
  handle_def handleZod_def ioBind_def ioReturn_def ioThrow_def
  getCourse_eq getUser_eq getAssignment_eq getSubmission_eq enrollmentCheck_eq
  getNotificationsByUser_eq select_sql firstRow_def copyRow_def getProp_def
  json_def respond_def


text \<open>
  C3. The enrollment check for student s3 and course c2, on a store whose two Enrollment
  rows are for other students and another course: the check returns the first row of the
  table, so the guard takes s3 for enrolled.
\<close>

theorem enrollment_check_ignores_ids:
  "fst (enrollmentCheck (JStr ''c2'') (JStr ''s3'') (serverWith campusStore)) =
     Inr [[(''id'', JStr ''e1''), (''studentId'', JStr ''s1''), (''courseId'', JStr ''c1'')]]
   \<and> \<not> (\<exists>e \<in> set (enrollments campusStore).
          getProp e ''studentId'' = JStr ''s3'' \<or> getProp e ''courseId'' = JStr ''c2'')"
  by (simp add: eval_defs)

text \<open>
  C1. On the same store, teacher t1, who does not own course c2, and student s3, who has
  no Enrollment row, ask for course c2 and for assignment a2 of course c2: all four
  requests are answered with status 200.
\<close>

theorem foreign_course_not_forbidden:
  "getProp (courses campusStore ! 1) ''id'' = JStr ''c2''
   \<and> getProp (courses campusStore ! 1) ''teacherId'' \<noteq> JStr ''t1''
   \<and> \<not> (\<exists>e \<in> set (enrollments campusStore). getProp e ''studentId'' = JStr ''s3'')
   \<and> status (fst (get_api_courses_id (serverWith campusStore) (teacherSession ''t1'') ''c2'')) = 200
   \<and> status (fst (get_api_courses_id (serverWith campusStore) (studentSession ''s3'') ''c2'')) = 200
   \<and> status (fst (get_api_assignments_id (serverWith campusStore) (teacherSession ''t1'') ''a2'')) = 200
   \<and> status (fst (get_api_assignments_id (serverWith campusStore) (studentSession ''s3'') ''a2'')) = 200"
  by (simp add: eval_defs get_api_courses_id_def get_api_assignments_id_def withGrades_def)

text \<open>
  C5. Student s1, enrolled in course c1, asks for assignment a1: the submissions of the
  response are those of s1 and of s2.
\<close>

theorem student_sees_other_submissions:
  "(case body (fst (get_api_assignments_id (serverWith campusStore) (studentSession ''s1'') ''a1'')) of
      Json (JObj r) \<Rightarrow>
        (case getProp r ''submissions'' of
           JArr subs \<Rightarrow> map (\<lambda>s. case s of JObj x \<Rightarrow> getProp x ''studentId'' | _ \<Rightarrow> JUndefined) subs
         | _ \<Rightarrow> [])
    | _ \<Rightarrow> []) = [JStr ''s1'', JStr ''s2'']"
  by (simp add: eval_defs get_api_assignments_id_def withGrades_def)

text \<open>
  C10. Student s1 marks the notification n1 as read: the notification n2 of student s2 is
  marked as well; and s1 may name n2, which is not theirs, with the same result.
\<close>

theorem mark_read_updates_every_notification:
  "fst (patch_api_notifications_id_read (serverWith campusStore) (studentSession ''s1'') ''n1'') =
     json (JObj [(''success'', JBool True)])
   \<and> map (\<lambda>n. (getProp n ''id'', getProp n ''userId'', getProp n ''isRead''))
       (notifications (mockData (snd (patch_api_notifications_id_read (serverWith campusStore)
          (studentSession ''s1'') ''n1'')))) =
     [(JStr ''n1'', JStr ''s1'', JBool True), (JStr ''n2'', JStr ''s2'', JBool True)]
   \<and> fst (patch_api_notifications_id_read (serverWith campusStore) (studentSession ''s1'') ''n2'') =
     json (JObj [(''success'', JBool True)])"
  by (simp add: eval_defs patch_api_notifications_id_read_def markNotificationAsRead_def
      db_update_def tableRows_def setTableRows_def assign_def)

lemma db_insert_submissions:
  "db_insert schema_submissions values w =
     (Inr (newRecord ''submissions'' values (randomIds w 0) (clock w 0)),
      w\<lparr>clock := (\<lambda>n. clock w (Suc n)), randomIds := (\<lambda>n. randomIds w (Suc n)),
        mockData := (mockData w)\<lparr>submissions := submissions (mockData w) @
           [newRecord ''submissions'' values (randomIds w 0) (clock w 0)]\<rparr>\<rparr>)"
  by (simp add: db_insert_def ioBind_def nowISOString_def generateId_def tableRows_def
      setTableRows_def Let_def)

text \<open>
  C2. Student s1, enrolled in the course of assignment a1, submits for a1 twice: both
  requests are answered with status 200 and the store then holds two Submission rows for
  (a1, s1).
\<close>

theorem second_submission_accepted:
  "(let first = post_api_submissions (serverWith enrolledStore) (studentSession ''s1'')
                  [(''assignmentId'', JStr ''a1''), (''content'', JStr ''answer'')];
        second = post_api_submissions (snd first) (studentSession ''s1'')
                  [(''assignmentId'', JStr ''a1''), (''content'', JStr ''answer'')]
    in (status (fst first), status (fst second),
        map (\<lambda>r. (getProp r ''id'', getProp r ''assignmentId'', getProp r ''studentId''))
          (submissions (mockData (snd second))))) =
   (200, 200,
    [(JStr ''k3j9x0q1a'', JStr ''a1'', JStr ''s1''), (JStr ''m4n5b6v7c'', JStr ''a1'', JStr ''s1'')])"
  by (simp add: eval_defs enrolledStore_def post_api_submissions_def createSubmission_def
      db_insert_submissions notify_def createNotification_def db_insert_notifications
      broadcastNotification_def newRecord_def idsFrom_def Let_def)

text \<open>
  C7. Student s3 has no Enrollment row. Enrolling in course c2 by its identifier is
  answered with the validation error, since the identifier is not a UUID; enrolling with a
  UUID is answered with status 400 and the message that the student is already enrolled.
  Either way the store is left without an Enrollment row for s3.
\<close>

theorem enrollment_refused_without_a_row:
  "\<not> (\<exists>e \<in> set (enrollments campusStore). getProp e ''studentId'' = JStr ''s3'')
   \<and> post_api_enrollments (serverWith campusStore) (studentSession ''s3'')
        [(''courseId'', JStr ''c2'')] =
       (respond 400 ValidationError, serverWith campusStore)
   \<and> post_api_enrollments (serverWith campusStore) (studentSession ''s3'')
        [(''courseId'', JStr ''123e4567-e89b-42d3-a456-426614174000'')] =
       (respond 400 (Message ''Already enrolled in this course''), serverWith campusStore)"
  using uuid_example
  by (simp add: eval_defs post_api_enrollments_def enrollmentSchema_parse_def
      uuidShape_def split_def)

section \<open>A course that is not found\<close>

lemma enrollments_listing_statuses:
  "status (fst (get_api_courses_id_enrollments w sess cid)) \<in> {200, 401, 403, 500}"
  by (auto simp add: get_api_courses_id_enrollments_def handle_def ioBind_def ioReturn_def
      getCourse_eq unauthorized_def forbidden_def respond_def json_def
      split: prod.splits sum.splits option.splits if_splits)

lemma assignment_creation_statuses:
  "status (fst (post_api_assignments w sess reqBody)) \<in> {200, 401, 403, 500}"
  by (auto simp add: post_api_assignments_def handle_def ioBind_def ioReturn_def
      getCourse_eq unauthorized_def forbidden_def respond_def json_def
      split: prod.splits sum.splits option.splits if_splits)

lemma material_creation_statuses:
  "status (fst (post_api_materials w sess reqBody)) \<in> {200, 401, 403, 500}"
  by (auto simp add: post_api_materials_def handle_def ioBind_def ioReturn_def
      getCourse_eq unauthorized_def forbidden_def respond_def json_def
      split: prod.splits sum.splits option.splits if_splits)

lemma course_miss_on_empty_store:
  "fst (getCourse (JStr ''c1'') (serverWith emptyStore)) = Inr None
   \<and> get_api_courses_id (serverWith emptyStore) (teacherSession ''t1'') ''c1'' =
       (respond 404 (Message ''Course not found''), serverWith emptyStore)
   \<and> get_api_courses_id_enrollments (serverWith emptyStore) (teacherSession ''t1'') ''c1'' =
       (respond 403 (Message ''You don't have permission to view these enrollments''),
        serverWith emptyStore)
   \<and> post_api_assignments (serverWith emptyStore) (teacherSession ''t1'')
       [(''courseId'', JStr ''c1''), (''title'', JStr ''Essay'')] =
       (respond 403 (Message ''You don't have permission to create assignments for this course''),
        serverWith emptyStore)
   \<and> post_api_materials (serverWith emptyStore) (teacherSession ''t1'')
       [(''courseId'', JStr ''c1''), (''title'', JStr ''Notes'')] =
       (respond 403 (Message ''You don't have permission to add materials to this course''),
        serverWith emptyStore)"
  by (simp add: eval_defs get_api_courses_id_def get_api_courses_id_enrollments_def
      post_api_assignments_def post_api_materials_def)

lemma unknown_course_listing:
  "\<not> (\<exists>c \<in> set (courses campusStore). getProp c ''id'' = JStr ''nope'')
   \<and> status (fst (get_api_courses_id_enrollments (serverWith campusStore)
                    (teacherSession ''t1'') ''nope'')) = 200
   \<and> status (fst (get_api_courses_id_enrollments (serverWith campusStore)
                    (teacherSession ''t2'') ''nope'')) = 403"
  by (simp add: eval_defs get_api_courses_id_enrollments_def withStudent_def)

lemma unknown_course_material:
  "(let r = post_api_materials (serverWith campusStore) (teacherSession ''t1'')
              [(''courseId'', JStr ''nope''), (''title'', JStr ''Notes'')]
    in (status (fst r),
        map (\<lambda>m. (getProp m ''id'', getProp m ''courseId'')) (materials (mockData (snd r))))) =
   (200, [(JStr ''k3j9x0q1a'', JStr ''nope'')])"
  by (simp add: eval_defs post_api_materials_def createMaterial_def db_insert_def
      nowISOString_def generateId_def tableRows_def setTableRows_def
      newRecord_def idsFrom_def Let_def)

lemma unknown_course_assignment:
  "(let r = post_api_assignments (serverWith campusStore) (teacherSession ''t1'')
              [(''courseId'', JStr ''nope''), (''title'', JStr ''Essay'')]
    in (status (fst r),
        map (\<lambda>a. (getProp a ''id'', getProp a ''courseId'')) (assignments (mockData (snd r))))) =
   (200, [(JStr ''a1'', JStr ''c1''), (JStr ''a2'', JStr ''c2''), (JStr ''k3j9x0q1a'', JStr ''nope'')])"
  by (simp add: eval_defs post_api_assignments_def createAssignment_def db_insert_def
      getEnrollmentsByCourse_def notifyStudent_def notify_def createNotification_def
      db_insert_notifications broadcastNotification_def
      nowISOString_def generateId_def tableRows_def setTableRows_def
      newRecord_def idsFrom_def Let_def)

text \<open>
  C4. The enrollment listing of a course, the creation of an assignment and the creation
  of a material look the course up and guard with
  \<^verbatim>\<open>!course || course.teacherId !== req.session.userId\<close>, answering 403 for both operands.
  So none of the three ever answers 404, whatever the state, the session and the request:
  their statuses are 200, 401, 403 and 500 only.

  Two requests show it. On a store with no course the lookup of course c1 returns no
  record; \<^verbatim>\<open>GET /api/courses/:id\<close> answers that miss with 404 and the message
  \<^verbatim>\<open>Course not found\<close>, while the three handlers answer it with 403 and their permission
  message, the store left as it was. On the store with the courses c1 (of teacher t1) and
  c2 (of teacher t2) no course has the identifier \<^verbatim>\<open>nope\<close>, yet the lookup returns the
  first course of the table: teacher t1 is answered 200 by the listing, and t1's material
  and assignment for the course \<^verbatim>\<open>nope\<close> are stored; teacher t2 is answered 403.
\<close>

theorem missing_course_never_not_found:
  "status (fst (get_api_courses_id_enrollments w sess cid)) \<noteq> 404
   \<and> status (fst (post_api_assignments w sess reqBody)) \<noteq> 404
   \<and> status (fst (post_api_materials w sess reqBody)) \<noteq> 404
   \<and> fst (getCourse (JStr ''c1'') (serverWith emptyStore)) = Inr None
   \<and> get_api_courses_id (serverWith emptyStore) (teacherSession ''t1'') ''c1'' =
       (respond 404 (Message ''Course not found''), serverWith emptyStore)
   \<and> get_api_courses_id_enrollments (serverWith emptyStore) (teacherSession ''t1'') ''c1'' =
       (respond 403 (Message ''You don't have permission to view these enrollments''),
        serverWith emptyStore)
   \<and> post_api_assignments (serverWith emptyStore) (teacherSession ''t1'')
       [(''courseId'', JStr ''c1''), (''title'', JStr ''Essay'')] =
       (respond 403 (Message ''You don't have permission to create assignments for this course''),
        serverWith emptyStore)
   \<and> post_api_materials (serverWith emptyStore) (teacherSession ''t1'')
       [(''courseId'', JStr ''c1''), (''title'', JStr ''Notes'')] =
       (respond 403 (Message ''You don't have permission to add materials to this course''),
        serverWith emptyStore)
   \<and> \<not> (\<exists>c \<in> set (courses campusStore). getProp c ''id'' = JStr ''nope'')
   \<and> status (fst (get_api_courses_id_enrollments (serverWith campusStore)
                    (teacherSession ''t1'') ''nope'')) = 200
   \<and> status (fst (get_api_courses_id_enrollments (serverWith campusStore)
                    (teacherSession ''t2'') ''nope'')) = 403
   \<and> (let r = post_api_materials (serverWith campusStore) (teacherSession ''t1'')
                 [(''courseId'', JStr ''nope''), (''title'', JStr ''Notes'')]
       in (status (fst r),
           map (\<lambda>m. (getProp m ''id'', getProp m ''courseId'')) (materials (mockData (snd r))))) =
      (200, [(JStr ''k3j9x0q1a'', JStr ''nope'')])
   \<and> (let r = post_api_assignments (serverWith campusStore) (teacherSession ''t1'')
                 [(''courseId'', JStr ''nope''), (''title'', JStr ''Essay'')]
       in (status (fst r),
           map (\<lambda>a. (getProp a ''id'', getProp a ''courseId'')) (assignments (mockData (snd r))))) =
      (200, [(JStr ''a1'', JStr ''c1''), (JStr ''a2'', JStr ''c2''),
             (JStr ''k3j9x0q1a'', JStr ''nope'')])"
proof -
  have a: "status (fst (get_api_courses_id_enrollments w sess cid)) \<noteq> 404"
    using enrollments_listing_statuses[of w sess cid] by auto
  have b: "status (fst (post_api_assignments w sess reqBody)) \<noteq> 404"
    using assignment_creation_statuses[of w sess reqBody] by auto
  have c: "status (fst (post_api_materials w sess reqBody)) \<noteq> 404"
    using material_creation_statuses[of w sess reqBody] by auto
  show ?thesis
    using a b c course_miss_on_empty_store unknown_course_listing unknown_course_material
      unknown_course_assignment
    by blast
qed

end
